theory Spec2Isabelle
  imports Complex_Main
begin

section \<open>JavaScript numbers\<close>

text \<open>
  The program computes with JavaScript numbers. Finite doubles are modelled by
  exact reals: a sum or a quotient of doubles is the exact one, and its
  rounding to a double is not modelled. The rounding of a \<^verbatim>\<open>Float32Array\<close>
  cell is modelled (\<open>fround\<close> below). The three special values the layout
  engine can hold are kept apart.
\<close>

datatype number = NaN | NEGATIVE_INFINITY | Num real | POSITIVE_INFINITY

text \<open>
  \<^verbatim>\<open>a < b\<close>; a comparison with NaN is false. \<^verbatim>\<open>a > b\<close> is \<open>less_number b a\<close>.
\<close>

fun less_number :: "number \<Rightarrow> number \<Rightarrow> bool" where
  "less_number NaN b = False"
| "less_number a NaN = False"
| "less_number a NEGATIVE_INFINITY = False"
| "less_number NEGATIVE_INFINITY b = True"
| "less_number POSITIVE_INFINITY b = False"
| "less_number (Num x) (Num y) = (x < y)"
| "less_number (Num x) POSITIVE_INFINITY = True"

text \<open>\<^verbatim>\<open>a + b\<close>, \<^verbatim>\<open>-a\<close> and \<^verbatim>\<open>a - b\<close>.\<close>

fun plus_number :: "number \<Rightarrow> number \<Rightarrow> number" where
  "plus_number NaN b = NaN"
| "plus_number a NaN = NaN"
| "plus_number (Num x) (Num y) = Num (x + y)"
| "plus_number (Num x) b = b"
| "plus_number a (Num y) = a"
| "plus_number a b = (if a = b then a else NaN)"

fun uminus_number :: "number \<Rightarrow> number" where
  "uminus_number NaN = NaN"
| "uminus_number NEGATIVE_INFINITY = POSITIVE_INFINITY"
| "uminus_number (Num x) = Num (- x)"
| "uminus_number POSITIVE_INFINITY = NEGATIVE_INFINITY"

definition minus_number :: "number \<Rightarrow> number \<Rightarrow> number" where
  "minus_number a b = plus_number a (uminus_number b)"

text \<open>
  \<^verbatim>\<open>a / b\<close>. The reals have one zero, which stands for \<open>+0\<close>; the program
  never divides by a zero (see \<open>pixChart\<close> and \<open>setFramesCount\<close> below).
\<close>

fun divide_number :: "number \<Rightarrow> number \<Rightarrow> number" where
  "divide_number NaN b = NaN"
| "divide_number a NaN = NaN"
| "divide_number (Num x) (Num y) =
     (if y \<noteq> 0 then Num (x / y)
      else if x = 0 then NaN
      else if 0 < x then POSITIVE_INFINITY else NEGATIVE_INFINITY)"
| "divide_number (Num x) b = Num 0"
| "divide_number a (Num y) = (if 0 \<le> y then a else uminus_number a)"
| "divide_number a b = NaN"

text \<open>\<^verbatim>\<open>Math.max(a, b)\<close>.\<close>

fun Math_max :: "number \<Rightarrow> number \<Rightarrow> number" where
  "Math_max NaN b = NaN"
| "Math_max a NaN = NaN"
| "Math_max a b = (if less_number a b then b else a)"

text \<open>\<^verbatim>\<open>Math.round\<close>: the nearest integer, a tie going up.\<close>

definition Math_round :: "real \<Rightarrow> int" where
  "Math_round x = \<lfloor>x + 1 / 2\<rfloor>"

text \<open>
  A store into a \<^verbatim>\<open>Float32Array\<close> converts the number as \<^verbatim>\<open>Math.fround\<close> does: to
  the nearest float32 (24 significant bits, the exponent of the leading bit
  between \<open>-126\<close> and \<open>127\<close>), a tie going to the even significand, and to an
  infinity from \<open>2^128\<close> on. \<open>bitLength n\<close> is the number of binary digits of
  \<open>n\<close>. In \<open>fround\<close>, \<open>e\<close> is the exponent of the leading bit of \<open>x\<close>, or \<open>-126\<close>
  below the normal range, and \<open>q\<close> is the distance of neighbouring float32s
  there, \<open>2^(e - 23)\<close>, counted in units of \<open>2^-149\<close>, the smallest float32.
\<close>

fun bitLength :: "nat \<Rightarrow> nat" where
  "bitLength n = (if n = 0 then 0 else Suc (bitLength (n div 2)))"

declare bitLength.simps [simp del]

definition roundTiesToEven :: "real \<Rightarrow> int" where
  "roundTiesToEven x =
     (let f = \<lfloor>x\<rfloor>
      in if x - real_of_int f < 1 / 2 then f
         else if 1 / 2 < x - real_of_int f then f + 1
         else if even f then f else f + 1)"

definition fround :: "real \<Rightarrow> number" where
  "fround x =
     (let e = max (int (bitLength (nat \<lfloor>\<bar>x\<bar> * 2 ^ 149\<rfloor>)) - 150) (- 126);
          q = 2 ^ nat (e + 126);
          r = real_of_int (roundTiesToEven (x * 2 ^ 149 / q)) * q / 2 ^ 149
      in if 2 ^ 128 \<le> \<bar>r\<bar> then (if 0 < r then POSITIVE_INFINITY else NEGATIVE_INFINITY)
         else Num r)"

section \<open>lib/loadParticles.js: the particle layout engine\<close>

text \<open>
  The decoded picture: \<open>data\<close> is \<^verbatim>\<open>ctx.getImageData(0, 0, width, height).data\<close>,
  the RGBA bytes in row-major order, \<open>4 * width * height\<close> of them. The
  engine reads \<open>data\<close> below that length only, so a read outside the array
  is not modelled.
\<close>

record image =
  width :: nat
  height :: nat
  data :: "nat list"

text \<open>
  What the program throws: the three \<^verbatim>\<open>Error\<close>s of the sources by their
  messages, a \<^verbatim>\<open>TypeError\<close> of the language, and an exception of the page's
  programming interface by its name.
\<close>

datatype error = Options_required | Canvas_is_required | WebGL_is_not_available | TypeError
  | DOMException string

text \<open>
  What the engine calls and this repository's sources do not hold, as
  parameters: the colour transform \<^verbatim>\<open>rgbToHsl\<close> of \<^verbatim>\<open>./colors\<close> (hue,
  saturation, lightness); the seeded generator \<^verbatim>\<open>require('ngraph.random')(42)\<close>,
  \<open>gaussian h k\<close> being the value of the \<open>k\<close>-th call of \<^verbatim>\<open>random.gaussian()\<close>
  since the module was loaded; and the canvas, \<open>canvasError h im\<close> being the
  exception that \<^verbatim>\<open>drawImage\<close> or \<^verbatim>\<open>getImageData\<close> raises on the picture, and
  \<open>None\<close> when they hand out \<open>data im\<close>. (By the HTML standard
  \<^verbatim>\<open>getImageData\<close> raises \<^verbatim>\<open>IndexSizeError\<close> for a width or height of 0.)
\<close>

record host =
  rgbToHsl :: "nat \<Rightarrow> nat \<Rightarrow> nat \<Rightarrow> real \<times> real \<times> real"
  gaussian :: "nat \<Rightarrow> real"
  canvasError :: "image \<Rightarrow> error option"

definition getValue :: "host \<Rightarrow> nat \<Rightarrow> nat \<Rightarrow> nat \<Rightarrow> real" where
  "getValue h r g b = snd (snd (rgbToHsl h r g b))"

text \<open>
  The \<^verbatim>\<open>options\<close> object of \<^verbatim>\<open>loadParticles\<close>, shared with the caller
  (\<^verbatim>\<open>particleLoaderSettings\<close> of pixChart); \<^verbatim>\<open>onProgress\<close> is a callback, whose
  calls the closure below records.
\<close>

record particleLoaderSettings =
  isCancelled :: bool
  framesCount :: number

text \<open>The object the promise resolves with (the canvas apart).\<close>

record particles =
  minFrameSpan :: number
  maxFrameSpan :: number
  particleAttributes :: "number list"
  maxYValue :: nat

text \<open>
  The closure of \<^verbatim>\<open>loadParticles\<close>: the four variables that end up in the
  resolved object, the cursor \<open>idx\<close>, the batch counter, the bucket occupancy
  (a \<^verbatim>\<open>Uint32Array\<close>), the shared \<^verbatim>\<open>options\<close> object, the values handed to
  \<^verbatim>\<open>onProgress\<close> so far, and the number of samples drawn from the generator.
\<close>

record loader = particles +
  idx :: nat
  initIntervals :: nat
  bucketColors :: "nat list"
  options :: particleLoaderSettings
  onProgress :: "nat list"
  drawn :: nat

text \<open>
  \<^verbatim>\<open>var bucketNumber = Math.round(v * bucketsCount);
  if (bucketNumber === bucketsCount) bucketNumber -= 1;\<close>
\<close>

definition bucketNumber :: "real \<Rightarrow> nat \<Rightarrow> int" where
  "bucketNumber v bucketsCount =
     (let b = Math_round (v * real bucketsCount)
      in if b = int bucketsCount then b - 1 else b)"

text \<open>
  \<^verbatim>\<open>currentYValue = bucketColors[bucketNumber] += 1\<close> on a \<^verbatim>\<open>Uint32Array\<close>:
  inside the array the cell is stored modulo \<open>2^32\<close> and the expression has the
  value before that reduction; outside it the read is \<^verbatim>\<open>undefined\<close>, the
  sum is NaN (\<open>None\<close>) and the write is dropped.
\<close>

definition incrementBucket :: "nat list \<Rightarrow> int \<Rightarrow> nat list \<times> nat option" where
  "incrementBucket buckets i =
     (if 0 \<le> i \<and> i < int (length buckets)
      then (buckets[nat i := (buckets ! nat i + 1) mod 2 ^ 32], Some (buckets ! nat i + 1))
      else (buckets, None))"

text \<open>
  One turn of the \<^verbatim>\<open>while\<close> loop of \<^verbatim>\<open>processPixels\<close>, up to \<^verbatim>\<open>idx += 4\<close>.
  Under the guard of the loop \<open>idx\<close> is a multiple of 4 below \<open>pixelsCount\<close>,
  so \<open>pixelsCount - idx - 4\<close> is not negative and the subtraction of the
  naturals is the one of the source. \<^verbatim>\<open>particleAttributes\<close> is a
  \<^verbatim>\<open>Float32Array\<close>: its cells hold the float32 of what is stored, while
  \<^verbatim>\<open>minFrameSpan\<close> and \<^verbatim>\<open>maxFrameSpan\<close> keep the double; a write outside the
  array is dropped, as by the update of a list.
\<close>

definition processPixel :: "host \<Rightarrow> image \<Rightarrow> loader \<Rightarrow> loader" where
  "processPixel h im st =
     (let n = width im * height im;
          bucketsCount = n;
          pixelsCount = 4 * n;
          invIndex = pixelsCount - idx st - 4;
          r = data im ! (invIndex + 0);
          g = data im ! (invIndex + 1);
          b = data im ! (invIndex + 2);
          v = getValue h r g b;
          (buckets, currentYValue) = incrementBucket (bucketColors st) (bucketNumber v bucketsCount);
          frameSpan = gaussian h (drawn st)
      in st\<lparr>
           bucketColors := buckets,
           drawn := drawn st + 1,
           particleAttributes := (particleAttributes st)
             [idx st + 0 := fround v,
              idx st + 1 := (case currentYValue of None \<Rightarrow> NaN | Some y \<Rightarrow> fround (real y - 1)),
              idx st + 2 := fround frameSpan,
              idx st + 3 := fround (real invIndex / 4)],
           minFrameSpan := (if less_number (Num frameSpan) (minFrameSpan st)
                            then Num frameSpan else minFrameSpan st),
           maxFrameSpan := (if less_number (maxFrameSpan st) (Num frameSpan)
                            then Num frameSpan else maxFrameSpan st),
           maxYValue := (case currentYValue of
                           None \<Rightarrow> maxYValue st
                         | Some y \<Rightarrow> if y > maxYValue st then y else maxYValue st),
           idx := idx st + 4\<rparr>)"

text \<open>
  \<^verbatim>\<open>processPixels\<close>, one batch. The wall clock is an input: \<open>budget\<close> is the
  number of pixels of this batch after which \<^verbatim>\<open>performance.now() - start > 12\<close>
  is still false, so the test first holds after pixel \<open>budget + 1\<close>. The result
  is the closure and whether the batch reached \<^verbatim>\<open>actualResolve\<close> (\<open>True\<close>) or
  left through \<^verbatim>\<open>scheduleWork(); return\<close> (\<open>False\<close>).
\<close>

fun processPixels :: "host \<Rightarrow> image \<Rightarrow> nat \<Rightarrow> loader \<Rightarrow> loader \<times> bool" where
  "processPixels h im budget st =
     (if idx st < 4 * (width im * height im)
      then (case budget of
              0 \<Rightarrow> (processPixel h im st, False)
            | Suc k \<Rightarrow> processPixels h im k (processPixel h im st))
      else (st, True))"

declare processPixels.simps [simp del]

lemma idx_processPixel: "idx (processPixel h im st) = idx st + 4"
  by (simp add: processPixel_def Let_def split: prod.splits)

lemma processPixels_yielded:
  "processPixels h im budget st = (st', False) \<Longrightarrow>
     idx st < 4 * (width im * height im) \<and> idx st < idx st'"
proof (induction budget arbitrary: st)
  case 0
  then show ?case
    by (auto simp: processPixels.simps [of h im 0 st] idx_processPixel split: if_splits)
next
  case (Suc k)
  from Suc.prems have below: "idx st < 4 * (width im * height im)"
    by (simp add: processPixels.simps [of h im "Suc k" st] split: if_splits)
  with Suc.prems have "processPixels h im k (processPixel h im st) = (st', False)"
    by (simp add: processPixels.simps [of h im "Suc k" st])
  from Suc.IH [OF this] have "idx st + 4 < idx st'"
    by (simp add: idx_processPixel)
  with below show ?case by simp
qed

text \<open>
  How the promise of \<^verbatim>\<open>loadParticles\<close> ends, with the closure at that moment:
  \<^verbatim>\<open>actualResolve\<close> is called, or \<^verbatim>\<open>scheduleWork\<close> returns with no timer set, and
  nothing is left that could call it. \<open>resolvedWith\<close> is the object handed to
  \<^verbatim>\<open>actualResolve\<close>.
\<close>

datatype outcome = Resolved loader | NeverResolved loader

fun resolvedWith :: "outcome \<Rightarrow> particles option" where
  "resolvedWith (Resolved st) = Some (particles.truncate st)"
| "resolvedWith (NeverResolved st) = None"

fun closure :: "outcome \<Rightarrow> loader" where
  "closure (Resolved st) = st"
| "closure (NeverResolved st) = st"

text \<open>
  What \<^verbatim>\<open>scheduleWork\<close> does once the flag was found clear: count the batch,
  report every tenth one, and set the timer (\<^verbatim>\<open>setTimeout(processPixels, 0)\<close>).
\<close>

definition timerSet :: "loader \<Rightarrow> loader" where
  "timerSet st =
     (let st1 = st\<lparr>initIntervals := initIntervals st + 1\<rparr>
      in if initIntervals st1 mod 10 = 0
         then st1\<lparr>onProgress := onProgress st1 @ [idx st1 div 4]\<rparr>
         else st1)"

lemma idx_timerSet: "idx (timerSet st) = idx st"
  by (simp add: timerSet_def Let_def)

text \<open>
  The gap before the timer fires, the only moment other code runs: the owner
  may set the shared flag (\<^verbatim>\<open>dispose\<close> does), and nothing clears it.
\<close>

definition gap :: "bool \<Rightarrow> loader \<Rightarrow> loader" where
  "gap cancel st = (if cancel then st\<lparr>options := (options st)\<lparr>isCancelled := True\<rparr>\<rparr> else st)"

lemma idx_gap: "idx (gap cancel st) = idx st"
  by (simp add: gap_def)

text \<open>
  \<^verbatim>\<open>scheduleWork\<close> together with the timer callback it sets, to the end of the
  promise. What happens around batch \<open>i\<close> is the input \<open>sched i\<close>: whether the
  owner sets \<^verbatim>\<open>options.isCancelled\<close> while its timer is pending, and its clock
  budget.
\<close>

function scheduleWork :: "host \<Rightarrow> image \<Rightarrow> (nat \<Rightarrow> bool \<times> nat) \<Rightarrow> nat \<Rightarrow> loader \<Rightarrow> outcome" where
  "scheduleWork h im sched i st =
     (if isCancelled (options st) then NeverResolved st
      else (case processPixels h im (snd (sched i)) (gap (fst (sched i)) (timerSet st)) of
              (st', True) \<Rightarrow> Resolved st' 
            | (st', False) \<Rightarrow> scheduleWork h im sched (Suc i) st'))"
  by pat_completeness auto
termination
  apply (relation "measure (\<lambda>(h, im, sched, i, st). 4 * (width im * height im) - idx st)")
   apply simp
  apply (auto dest!: processPixels_yielded [OF sym] simp: idx_timerSet idx_gap diff_less_mono2)
  done

declare scheduleWork.simps [simp del]

text \<open>
  \<^verbatim>\<open>loadParticles(image, options)\<close>. \<open>opts\<close> is \<open>None\<close> for a missing
  argument; \<open>seed\<close> is the number of samples the module's generator has handed
  out before. An exception of the canvas leaves the function before
  \<^verbatim>\<open>scheduleWork\<close> is called. The number of buckets is
  \<^verbatim>\<open>var bucketsCount = n; // TODO: Customize?\<close>.
\<close>

definition bucketsCount :: "image \<Rightarrow> nat" where
  "bucketsCount im = width im * height im"

definition initialLoader :: "image \<Rightarrow> particleLoaderSettings \<Rightarrow> nat \<Rightarrow> loader" where
  "initialLoader im settings seed =
     (let n = width im * height im
      in \<lparr>minFrameSpan = POSITIVE_INFINITY, maxFrameSpan = NEGATIVE_INFINITY,
          particleAttributes = replicate (4 * n) (Num 0), maxYValue = 0,
          idx = 0, initIntervals = 0, bucketColors = replicate (bucketsCount im) 0,
          options = settings, onProgress = [], drawn = seed\<rparr>)"

definition loadParticles ::
  "host \<Rightarrow> (nat \<Rightarrow> bool \<times> nat) \<Rightarrow> nat \<Rightarrow> image \<Rightarrow> particleLoaderSettings option \<Rightarrow> error + outcome" where
  "loadParticles h sched seed im opts =
     (case opts of
        None \<Rightarrow> Inl Options_required
      | Some settings \<Rightarrow>
          (case canvasError h im of
             Some e \<Rightarrow> Inl e
           | None \<Rightarrow> Inr (scheduleWork h im sched 0 (initialLoader im settings seed))))"

subsection \<open>What a layout is to satisfy\<close>

text \<open>
  Not code, but the vocabulary of the statements about it. \<open>pixelValue\<close> is the
  value of the pixel with the (forward) index \<open>i\<close>, as \<open>processPixel\<close> computes
  it; particle \<open>j\<close> comes from the pixel \<open>width * height - 1 - j\<close>, whose value
  is \<open>particleValue\<close> and whose bucket is \<open>particleBucket\<close>. When \<open>k\<close> pixels are
  processed, \<open>stacked\<close> says that each of the first \<open>k\<close> particles holds the
  float32 of its value and the float32 of a whole stack height, its bucket
  lies in the array and the stack height is below the occupancy of that
  bucket; \<open>spanned\<close> that the spans are the initial infinities (\<open>k = 0\<close>) or
  finite, and each particle holds the float32 of a jitter between them;
  \<open>tallest\<close> that \<open>maxYValue\<close> bounds the occupancies and is one of them, or 0;
  \<open>laid_out\<close> puts them together with the sizes of the arrays and the sum of the
  occupancies.
\<close>

definition pixelValue :: "host \<Rightarrow> image \<Rightarrow> nat \<Rightarrow> real" where
  "pixelValue h im i =
     getValue h (data im ! (4 * i + 0)) (data im ! (4 * i + 1)) (data im ! (4 * i + 2))"

definition particleValue :: "host \<Rightarrow> image \<Rightarrow> nat \<Rightarrow> real" where
  "particleValue h im j = pixelValue h im (width im * height im - 1 - j)"

definition particleBucket :: "host \<Rightarrow> image \<Rightarrow> nat \<Rightarrow> int" where
  "particleBucket h im j = bucketNumber (particleValue h im j) (bucketsCount im)"

definition stacked :: "host \<Rightarrow> image \<Rightarrow> nat \<Rightarrow> loader \<Rightarrow> bool" where
  "stacked h im k st =
     (\<forall>j<k. \<exists>s. particleAttributes st ! (4 * j) = fround (particleValue h im j) \<and>
        particleAttributes st ! (4 * j + 1) = fround (real s) \<and>
        0 \<le> particleBucket h im j \<and> particleBucket h im j < int (bucketsCount im) \<and>
        s < bucketColors st ! nat (particleBucket h im j))"

definition spanned :: "nat \<Rightarrow> loader \<Rightarrow> bool" where
  "spanned k st =
     (if k = 0
      then particles.minFrameSpan st = POSITIVE_INFINITY \<and> particles.maxFrameSpan st = NEGATIVE_INFINITY
      else (\<exists>lo hi. particles.minFrameSpan st = Num lo \<and> particles.maxFrameSpan st = Num hi \<and>
              (\<forall>j<k. \<exists>x. particleAttributes st ! (4 * j + 2) = fround x \<and> lo \<le> x \<and> x \<le> hi)))"

definition tallest :: "loader \<Rightarrow> bool" where
  "tallest st =
     ((\<forall>b\<in>set (bucketColors st). b \<le> maxYValue st) \<and>
      (maxYValue st = 0 \<or> maxYValue st \<in> set (bucketColors st)))"

definition laid_out :: "host \<Rightarrow> image \<Rightarrow> nat \<Rightarrow> loader \<Rightarrow> bool" where
  "laid_out h im k st =
     (k \<le> width im * height im \<and> idx st = 4 * k \<and>
      length (bucketColors st) = width im * height im \<and>
      length (particleAttributes st) = 4 * (width im * height im) \<and>
      sum_list (bucketColors st) = k \<and>
      stacked h im k st \<and> spanned k st \<and> tallest st)"

subsection \<open>A sample load\<close>

text \<open>
  Modelled from the spec: the lightness channel of \<^verbatim>\<open>rgbToHsl\<close> (the colour
  transform of \<^verbatim>\<open>./colors\<close> is not among the sources), range-normalized to
  \<open>[0,1]\<close>; hue and saturation, which the engine never reads, are 0. The
  canvas of the sample host raises the exception of the standard for a
  picture with no pixel. The host serves as sample input only: every theorem
  below holds for any host.
\<close>

definition example_host :: host where
  "example_host =
     \<lparr>rgbToHsl = (\<lambda>r g b. (0, 0, (real (max r (max g b)) + real (min r (min g b))) / 510)),
      gaussian = (\<lambda>k. real k / 2 - 1),
      canvasError = (\<lambda>im. if width im = 0 \<or> height im = 0
                            then Some (DOMException ''IndexSizeError'') else None)\<rparr>"

text \<open>
  The same host with a generator that hands out the double
  \<open>4.689156939491689\<close>, which is \<open>5279521361344137 / 2^50\<close> and no float32.
\<close>

definition rounding_host :: host where
  "rounding_host = example_host\<lparr>gaussian := (\<lambda>k. 5279521361344137 / 2 ^ 50)\<rparr>"

text \<open>A white pixel and a black one; a white pixel; a picture with no pixel.\<close>

definition example_image :: image where
  "example_image = \<lparr>width = 2, height = 1, data = [255, 255, 255, 255, 0, 0, 0, 255]\<rparr>"

definition single_pixel :: image where
  "single_pixel = \<lparr>width = 1, height = 1, data = [255, 255, 255, 255]\<rparr>"

definition empty_image :: image where
  "empty_image = \<lparr>width = 0, height = 0, data = []\<rparr>"

text \<open>
  Schedules: nobody cancels and every batch has the same clock budget; or the
  owner cancels while the timer of batch \<open>k\<close> is pending.
\<close>

definition uninterrupted :: "nat \<Rightarrow> nat \<Rightarrow> bool \<times> nat" where
  "uninterrupted budget i = (False, budget)"

definition cancelledBefore :: "nat \<Rightarrow> nat \<Rightarrow> nat \<Rightarrow> bool \<times> nat" where
  "cancelledBefore k budget i = (i = k, budget)"

definition example_settings :: particleLoaderSettings where
  "example_settings = \<lparr>isCancelled = False, framesCount = Num 120\<rparr>"

text \<open>What the sample load resolves with (\<open>example_load\<close> below).\<close>

definition example_particles :: particles where
  "example_particles =
     \<lparr>minFrameSpan = Num (- 1), maxFrameSpan = Num (- (1 / 2)),
      particleAttributes = [Num 0, Num 0, Num (- 1), Num 1, Num 1, Num 0, Num (- (1 / 2)), Num 0],
      maxYValue = 1\<rparr>"

text \<open>The closure when the sample load resolves after one batch (\<open>example_resolves\<close> below).\<close>

definition example_closure :: loader where
  "example_closure =
     \<lparr>minFrameSpan = Num (- 1), maxFrameSpan = Num (- (1 / 2)),
      particleAttributes = [Num 0, Num 0, Num (- 1), Num 1, Num 1, Num 0, Num (- (1 / 2)), Num 0],
      maxYValue = 1, idx = 8, initIntervals = 1, bucketColors = [1, 1],
      options = example_settings, onProgress = [], drawn = 2\<rparr>"

section \<open>pixchart/index.js: the animation\<close>

datatype animation = ANIMATION_COLLAPSE | ANIMATION_EXPAND

text \<open>
  The \<^verbatim>\<open>options\<close> argument of \<^verbatim>\<open>pixChart\<close>, with every property the two source
  files read or write. \<open>None\<close> is a property left out; \<open>canvas\<close> says that a
  canvas is given, \<open>webgl\<close> that it hands out a WebGL context, and \<open>progress\<close>
  and \<open>cycleComplete\<close> that the callback is given.
\<close>

record options =
  canvas :: bool
  webgl :: bool
  framesCount :: "number option"
  scaleImage :: "bool option"
  maxPixels :: "number option"
  progress :: bool
  cycleComplete :: bool
  colorGroupBy :: "string option"
  bucketCount :: "number option"
  collapsed :: "bool option"

record progressInfo =
  total :: nat
  current :: nat
  step :: string

text \<open>
  The closure of \<^verbatim>\<open>pixChart\<close>. A variable that is \<^verbatim>\<open>undefined\<close> holds NaN, which
  compares and adds as \<^verbatim>\<open>undefined\<close> does. \<open>nextAnimationFrame\<close> says that a frame
  callback (\<^verbatim>\<open>animate\<close>) is requested; \<open>pendingTimeout\<close> is the delay of the
  pending timer, whose callback requests a frame. \<open>loadImage\<close> lists the calls
  of \<^verbatim>\<open>loadImage\<close> (scaleImage, maxPixels), \<open>notified\<close> the calls of
  \<^verbatim>\<open>options.progress\<close>, \<open>cycleCompleteCalls\<close> counts those of
  \<^verbatim>\<open>options.cycleComplete\<close>. The WebGL calls and the variables only they read
  (sizes, shaders) are left out.
\<close>

record chart =
  imageLink :: string
  options :: options
  state :: animation
  nextAnimationFrame :: bool
  pendingTimeout :: "nat option"
  disposed :: bool
  framesCount :: number
  currentFrameNumber :: number
  particleLoaderSettings :: particleLoaderSettings
  progress :: progressInfo
  minFrameSpan :: number
  maxFrameSpan :: number
  frameChangeRate :: number
  imgInfo :: "particles option"
  particleAttributesBuffer :: bool
  loadImage :: "(bool \<times> number option) list"
  notified :: "progressInfo list"
  cycleCompleteCalls :: nat

definition initialState :: animation where
  "initialState = ANIMATION_COLLAPSE"

text \<open>\<^verbatim>\<open>options = options || {}\<close>\<close>

definition noOptions :: options where
  "noOptions = \<lparr>canvas = False, webgl = False, framesCount = None, scaleImage = None,
     maxPixels = None, progress = False, cycleComplete = False, colorGroupBy = None,
     bucketCount = None, collapsed = None\<rparr>"

text \<open>\<^verbatim>\<open>options.framesCount || 120\<close>: \<^verbatim>\<open>undefined\<close>, NaN and 0 are falsy.\<close>

definition framesCountOr120 :: "number option \<Rightarrow> number" where
  "framesCountOr120 x =
     (case x of None \<Rightarrow> Num 120
      | Some y \<Rightarrow> if y = NaN \<or> y = Num 0 then Num 120 else y)"

definition notifyProgress :: "chart \<Rightarrow> chart" where
  "notifyProgress c =
     (if options.progress (chart.options c) then c\<lparr>notified := notified c @ [chart.progress c]\<rparr>
      else c)"

definition startAnimationPipeline :: "chart \<Rightarrow> chart" where
  "startAnimationPipeline c =
     c\<lparr>loadImage := loadImage c @
          [(case options.scaleImage (chart.options c) of None \<Rightarrow> True | Some b \<Rightarrow> b,
            options.maxPixels (chart.options c))]\<rparr>"

text \<open>\<^verbatim>\<open>pixChart(imageLink, options)\<close>, up to \<^verbatim>\<open>return api\<close>.\<close>

definition pixChart :: "string \<Rightarrow> options option \<Rightarrow> error + chart" where
  "pixChart link opts =
     (let opts = (case opts of None \<Rightarrow> noOptions | Some given \<Rightarrow> given)
      in if \<not> canvas opts then Inl Canvas_is_required
         else if \<not> webgl opts then Inl WebGL_is_not_available
         else
           (let state0 = initialState;
                framesCount0 = framesCountOr120 (options.framesCount opts)
            in Inr (startAnimationPipeline
              \<lparr>imageLink = link, options = opts, state = state0,
               nextAnimationFrame = False, pendingTimeout = None, disposed = False,
               framesCount = framesCount0,
               currentFrameNumber = (if state0 = ANIMATION_COLLAPSE then Num 0 else framesCount0),
               particleLoaderSettings =
                 \<lparr>isCancelled = False, framesCount = framesCount0\<rparr>,
               progress = \<lparr>total = 0, current = 0, step = ''image''\<rparr>,
               minFrameSpan = NaN, maxFrameSpan = NaN, frameChangeRate = NaN,
               imgInfo = None, particleAttributesBuffer = False,
               loadImage = [], notified = [], cycleCompleteCalls = 0\<rparr>)))"

definition setMaxPixels :: "number \<Rightarrow> chart \<Rightarrow> chart" where
  "setMaxPixels maxPixels' c =
     c\<lparr>loadImage := loadImage c @
          [(case options.scaleImage (chart.options c) of None \<Rightarrow> True | Some b \<Rightarrow> b,
            Some maxPixels')]\<rparr>"

definition releasePreviousWebGLResources :: "chart \<Rightarrow> chart" where
  "releasePreviousWebGLResources c = c\<lparr>particleAttributesBuffer := False, imgInfo := None\<rparr>"

definition dispose :: "chart \<Rightarrow> chart" where
  "dispose c =
     (releasePreviousWebGLResources (c\<lparr>nextAnimationFrame := False, pendingTimeout := None\<rparr>))
       \<lparr>particleLoaderSettings := (particleLoaderSettings c)\<lparr>isCancelled := True\<rparr>,
        nextAnimationFrame := False, pendingTimeout := None, disposed := True\<rparr>"

text \<open>\<^verbatim>\<open>reportImageStatsProgress\<close>, the \<^verbatim>\<open>onProgress\<close> of the engine.\<close>

definition reportImageStatsProgress :: "nat \<Rightarrow> chart \<Rightarrow> chart" where
  "reportImageStatsProgress processedPixels c =
     notifyProgress (c\<lparr>progress := (chart.progress c)\<lparr>current := processedPixels\<rparr>\<rparr>)"

text \<open>
  \<^verbatim>\<open>updateProgressAndLoadParticles(image)\<close> with the engine run to the end of
  its promise: the closure afterwards, and the exception thrown, or the
  particles when the promise resolved (\<^verbatim>\<open>progress.step = 'done'\<close>), or \<open>None\<close>
  when it never does. A cancellation of \<open>sched\<close> is a call of \<open>dispose\<close>, the one
  place that sets the flag.
\<close>

definition updateProgressAndLoadParticles ::
  "host \<Rightarrow> (nat \<Rightarrow> bool \<times> nat) \<Rightarrow> nat \<Rightarrow> image \<Rightarrow> chart \<Rightarrow> chart \<times> (error + particles option)" where
  "updateProgressAndLoadParticles h sched seed im c =
     (let c1 = notifyProgress
                 (c\<lparr>progress := (chart.progress c)\<lparr>total := width im * height im, step := ''pixels''\<rparr>\<rparr>)
      in case loadParticles h sched seed im (Some (particleLoaderSettings c1)) of
           Inl e \<Rightarrow> (c1, Inl e)
         | Inr out \<Rightarrow>
             (let c2 = fold reportImageStatsProgress (onProgress (closure out)) c1;
                  c3 = (if isCancelled (loader.options (closure out)) \<and> \<not> isCancelled (particleLoaderSettings c1)
                        then dispose c2 else c2)
              in case resolvedWith out of
                   None \<Rightarrow> (c3, Inr None)
                 | Some p \<Rightarrow>
                     (notifyProgress (c3\<lparr>progress := (chart.progress c3)\<lparr>step := ''done''\<rparr>\<rparr>),
                      Inr (Some p))))"

definition setFramesCount :: "number \<Rightarrow> chart \<Rightarrow> chart" where
  "setFramesCount newCount c =
     (let framesCount' = Math_max newCount (Num 1)
      in c\<lparr>chart.framesCount := framesCount',
           frameChangeRate :=
             divide_number (minus_number (chart.maxFrameSpan c) (chart.minFrameSpan c)) framesCount'\<rparr>)"

definition setInitialFrameNumber :: "chart \<Rightarrow> chart" where
  "setInitialFrameNumber c = c\<lparr>currentFrameNumber := chart.minFrameSpan c\<rparr>"

text \<open>
  \<^verbatim>\<open>initWebGLPrimitives(loadedImage, keepCurrentFrame)\<close>; of \<^verbatim>\<open>loadedImage\<close> the
  model keeps the particles.
\<close>

definition initWebGLPrimitives :: "particles \<Rightarrow> bool \<Rightarrow> chart \<Rightarrow> chart" where
  "initWebGLPrimitives loaded keepCurrentFrame c =
     (if disposed c then c
      else
        (let c1 = (releasePreviousWebGLResources c)
                    \<lparr>imgInfo := Some loaded,
                     chart.minFrameSpan := particles.minFrameSpan loaded,
                     chart.maxFrameSpan := particles.maxFrameSpan loaded,
                     frameChangeRate :=
                       divide_number
                         (minus_number (particles.maxFrameSpan loaded) (particles.minFrameSpan loaded))
                         (chart.framesCount c),
                     particleAttributesBuffer := True\<rparr>
         in if \<not> keepCurrentFrame then setInitialFrameNumber c1 else c1))"

text \<open>
  \<^verbatim>\<open>startExpandCollapseCycle\<close> (the API's \<^verbatim>\<open>restartCycle\<close>), and the callback of
  the timer it and \<^verbatim>\<open>completeState\<close> set.
\<close>

definition startExpandCollapseCycle :: "chart \<Rightarrow> chart" where
  "startExpandCollapseCycle c =
     (if disposed c then c
      else if nextAnimationFrame c \<or> pendingTimeout c \<noteq> None then c
      else c\<lparr>pendingTimeout := Some 1000\<rparr>)"

definition timeoutFired :: "chart \<Rightarrow> chart" where
  "timeoutFired c = c\<lparr>pendingTimeout := None, nextAnimationFrame := True\<rparr>"

definition completeState :: "chart \<Rightarrow> chart" where
  "completeState c =
     (let c = setInitialFrameNumber c
      in if state c = initialState
         then (if options.cycleComplete (chart.options c)
               then c\<lparr>cycleCompleteCalls := cycleCompleteCalls c + 1\<rparr> else c)
         else c\<lparr>pendingTimeout := Some 1000\<rparr>)"

definition scheduleNextFrame :: "chart \<Rightarrow> chart" where
  "scheduleNextFrame c =
     (if state c = ANIMATION_COLLAPSE
      then (if less_number (currentFrameNumber c) (chart.maxFrameSpan c)
            then c\<lparr>currentFrameNumber := plus_number (currentFrameNumber c) (frameChangeRate c),
                   nextAnimationFrame := True\<rparr>
            else completeState (c\<lparr>state := ANIMATION_EXPAND\<rparr>))
      else (if less_number (currentFrameNumber c) (chart.maxFrameSpan c)
            then (let c = c\<lparr>currentFrameNumber := plus_number (currentFrameNumber c) (frameChangeRate c)\<rparr>;
                      c = (if less_number (currentFrameNumber c) (chart.maxFrameSpan c)
                           then c\<lparr>currentFrameNumber := plus_number (currentFrameNumber c) (frameChangeRate c)\<rparr>
                           else c)
                  in c\<lparr>nextAnimationFrame := True\<rparr>)
            else completeState (c\<lparr>state := ANIMATION_COLLAPSE\<rparr>)))"

text \<open>\<^verbatim>\<open>animate\<close>, the frame callback: a tick (the draw is a WebGL call).\<close>

definition animate :: "chart \<Rightarrow> chart" where
  "animate c = scheduleNextFrame (c\<lparr>nextAnimationFrame := False\<rparr>)"



definition setMaxPixels_loaded ::
  "host \<Rightarrow> (nat \<Rightarrow> bool \<times> nat) \<Rightarrow> nat \<Rightarrow> image \<Rightarrow> chart \<Rightarrow> chart" where
  "setMaxPixels_loaded h sched seed im c =
     (case updateProgressAndLoadParticles h sched seed im c of
        (c', Inl e) \<Rightarrow> c'
      | (c', Inr None) \<Rightarrow> c'
      | (c', Inr (Some p)) \<Rightarrow> initWebGLPrimitives p True c')"

section \<open>scene.js: the session\<close>

text \<open>
  \<^verbatim>\<open>Number.parseFloat(x)\<close> and \<^verbatim>\<open>Number.parseInt(x, 10)\<close> belong to the language
  and are parameters, over any type \<open>'v\<close> of inputs.
\<close>

record 'v globals =
  parseFloat :: "'v \<Rightarrow> number"
  parseInt :: "'v \<Rightarrow> number"

datatype qvalue = QNum number | QStr string

text \<open>The callback of the session's pending timer.\<close>

datatype callback = ProcessNextInQueue | CreatePixChart "string option"

text \<open>
  The closure of \<^verbatim>\<open>initScene\<close> with the fields of its \<^verbatim>\<open>state\<close> object that the
  functions below read or write, and the query string \<open>qs\<close>. \<open>webglAvailable\<close>
  says whether the canvas of the session hands out a WebGL context. The page
  elements are left out. What a function of the session returns is the
  closure it leaves, or \<open>Inl\<close> the exception it throws with the closure at the
  throw.
\<close>

record scene =
  webglAvailable :: bool
  currentPixChart :: "chart option"
  queue :: "string list"
  lastIndex :: int
  pendingTimeout :: "(callback \<times> nat) option"
  qs :: "string \<rightharpoonup> qvalue"
  duration :: number
  bucketCount :: number
  maxPixels :: number
  currentColorGroupBy :: string
  initialImageState :: string

definition DEFAULT_ANIMATION_DURATION :: number where
  "DEFAULT_ANIMATION_DURATION = Num 2"

definition DEFAULT_BUCKET_COUNT :: number where
  "DEFAULT_BUCKET_COUNT = Num 510"

definition PAUSE_BETWEEN_CYCLES :: nat where
  "PAUSE_BETWEEN_CYCLES = 1000"

text \<open>\<^verbatim>\<open>seconds * 60\<close>\<close>

fun toFrames :: "number \<Rightarrow> number" where
  "toFrames (Num seconds) = Num (seconds * 60)"
| "toFrames seconds = seconds"

definition getSafeInitialState :: "string option \<Rightarrow> string" where
  "getSafeInitialState plainInput =
     (if plainInput = Some ''expanded'' then ''expanded'' else ''collapsed'')"

definition getSafeColorGroupBy :: "string option \<Rightarrow> string" where
  "getSafeColorGroupBy plainInput =
     (case plainInput of None \<Rightarrow> ''hsl.l'' | Some x \<Rightarrow> if x = [] then ''hsl.l'' else x)"

definition getSafeBucketCount :: "'v globals \<Rightarrow> 'v \<Rightarrow> number" where
  "getSafeBucketCount g plainInput =
     (let parsedValue = parseInt g plainInput
      in if parsedValue = NaN \<or> less_number parsedValue (Num 1) then DEFAULT_BUCKET_COUNT
         else parsedValue)"

text \<open>
  \<^verbatim>\<open>createPixChart(imageLink)\<close>; \<open>None\<close> is \<^verbatim>\<open>undefined\<close>, of which \<^verbatim>\<open>pixChart\<close>
  reads a property. When \<^verbatim>\<open>pixChart\<close> has returned and the chart is assigned,
  the session subscribes to it with \<^verbatim>\<open>currentPixChart.on(...)\<close>. The \<^verbatim>\<open>api\<close>
  object of the pixchart source at hand has no \<^verbatim>\<open>on\<close> (its \<^verbatim>\<open>eventify\<close> is
  commented out), so this call throws a \<^verbatim>\<open>TypeError\<close>: with these two sources
  every call of \<^verbatim>\<open>createPixChart\<close> ends in an exception.
\<close>

definition createPixChart :: "string option \<Rightarrow> scene \<Rightarrow> error \<times> scene + scene" where
  "createPixChart link sc =
     (case link of
        None \<Rightarrow> Inl (TypeError, sc)
      | Some imageLink' \<Rightarrow>
          (case pixChart imageLink'
                  (Some \<lparr>canvas = True, webgl = webglAvailable sc,
                         framesCount = Some (toFrames (duration sc)),
                         scaleImage = Some True,
                         maxPixels = Some (scene.maxPixels sc),
                         progress = False, cycleComplete = False,
                         colorGroupBy = Some (currentColorGroupBy sc),
                         bucketCount = Some (scene.bucketCount sc),
                         collapsed = Some (initialImageState sc = ''collapsed'')\<rparr>) of
             Inl e \<Rightarrow> Inl (e, sc)
           | Inr c \<Rightarrow> Inl (TypeError, sc\<lparr>currentPixChart := Some c\<rparr>)))"

definition setImage :: "string option \<Rightarrow> bool \<Rightarrow> scene \<Rightarrow> error \<times> scene + scene" where
  "setImage link forceDispose sc =
     (case currentPixChart sc of
        None \<Rightarrow> createPixChart link sc
      | Some c \<Rightarrow>
          if link = Some (imageLink c) \<and> \<not> forceDispose
          then Inr (sc\<lparr>currentPixChart := Some (startExpandCollapseCycle c)\<rparr>)
          else Inr (sc\<lparr>currentPixChart := Some (dispose c),
                        scene.pendingTimeout := Some (CreatePixChart link, 250)\<rparr>))"

definition processNextInQueue :: "bool \<Rightarrow> scene \<Rightarrow> error \<times> scene + scene" where
  "processNextInQueue forceDispose sc =
     (let sc = sc\<lparr>scene.pendingTimeout := None\<rparr>;
          img = (if 0 \<le> lastIndex sc \<and> lastIndex sc < int (length (queue sc))
                 then Some (queue sc ! nat (lastIndex sc)) else None);
          lastIndex' = lastIndex sc + 1;
          lastIndex' = (if lastIndex' \<ge> int (length (queue sc)) then 0 else lastIndex')
      in setImage img forceDispose (sc\<lparr>lastIndex := lastIndex'\<rparr>))"

definition restartCurrentAnimation :: "scene \<Rightarrow> error \<times> scene + scene" where
  "restartCurrentAnimation sc =
     (if queue sc = [] then Inr sc
      else
        (let lastIndex' = lastIndex sc - 1;
             lastIndex' = (if lastIndex' < 0 then int (length (queue sc)) - 1 else lastIndex')
         in processNextInQueue True (sc\<lparr>lastIndex := lastIndex'\<rparr>)))"

definition setAnimationDuration :: "'v globals \<Rightarrow> 'v \<Rightarrow> scene \<Rightarrow> scene" where
  "setAnimationDuration g newCount sc =
     (let seconds = parseFloat g newCount
      in if seconds = NaN then sc
         else sc\<lparr>qs := (qs sc)(''d'' \<mapsto> QNum seconds),
                 duration := seconds,
                 currentPixChart := map_option (setFramesCount (toFrames seconds)) (currentPixChart sc)\<rparr>)"

definition setBucketCount :: "'v globals \<Rightarrow> 'v \<Rightarrow> scene \<Rightarrow> error \<times> scene + scene" where
  "setBucketCount g newCount sc =
     (let bucketCount' = parseInt g newCount
      in if bucketCount' = NaN \<or> less_number bucketCount' (Num 1) then Inr sc
         else
           (let sc = sc\<lparr>qs := (qs sc)(''bc'' \<mapsto> QNum bucketCount'),
                         scene.bucketCount := bucketCount'\<rparr>
            in if currentPixChart sc \<noteq> None then restartCurrentAnimation sc else Inr sc))"

definition setMaxPixels_scene :: "'v globals \<Rightarrow> 'v \<Rightarrow> scene \<Rightarrow> scene" where
  "setMaxPixels_scene g newCount sc =
     (let maxPixels' = parseInt g newCount
      in if maxPixels' = NaN then sc
         else sc\<lparr>scene.maxPixels := maxPixels',
                 currentPixChart := map_option (setMaxPixels maxPixels') (currentPixChart sc)\<rparr>)"

subsection \<open>A sample session\<close>

definition example_options :: options where
  "example_options =
     \<lparr>canvas = True, webgl = True, framesCount = Some (Num 4), scaleImage = None,
      maxPixels = None, progress = True, cycleComplete = True, colorGroupBy = None,
      bucketCount = None, collapsed = None\<rparr>"

text \<open>
  The chart of \<open>example_options\<close> once the sample load is installed
  (\<open>example_chart_built\<close> below): the spans are \<open>-1\<close> and \<open>-1/2\<close>, four frames
  make a phase, a step is \<open>1/8\<close>.
\<close>

definition example_chart :: chart where
  "example_chart =
     \<lparr>imageLink = ''picture'', options = example_options, state = ANIMATION_COLLAPSE,
      nextAnimationFrame = False, pendingTimeout = None, disposed = False,
      framesCount = Num 4, currentFrameNumber = Num (- 1),
      particleLoaderSettings = \<lparr>isCancelled = False, framesCount = Num 4\<rparr>,
      progress = \<lparr>total = 0, current = 0, step = ''image''\<rparr>,
      minFrameSpan = Num (- 1), maxFrameSpan = Num (- (1 / 2)), frameChangeRate = Num (1 / 8),
      imgInfo = Some example_particles, particleAttributesBuffer = True,
      loadImage = [(True, None)], notified = [], cycleCompleteCalls = 0\<rparr>"

text \<open>
  Sample parsers: of the inputs tried below, \<^verbatim>\<open>'2.5'\<close> is the one
  \<^verbatim>\<open>parseFloat\<close> reads, \<^verbatim>\<open>'7'\<close> and \<^verbatim>\<open>'0'\<close> the ones \<^verbatim>\<open>parseInt\<close> reads.
\<close>

definition example_globals :: "string globals" where
  "example_globals =
     \<lparr>parseFloat = (\<lambda>x. if x = ''2.5'' then Num (5 / 2) else NaN),
      parseInt = (\<lambda>x. if x = ''7'' then Num 7 else if x = ''0'' then Num 0 else NaN)\<rparr>"

definition example_scene :: scene where
  "example_scene =
     \<lparr>webglAvailable = True, currentPixChart = Some example_chart, queue = [''picture''],
      lastIndex = 0, pendingTimeout = None, qs = [''d'' \<mapsto> QNum (Num 2)],
      duration = Num 2, bucketCount = Num 510, maxPixels = Num 409600,
      currentColorGroupBy = ''hsl.l'', initialImageState = ''collapsed''\<rparr>"

section \<open>Properties of the layout engine\<close>

subsection \<open>Float32 cells\<close>

lemma bitLength_0: "bitLength 0 = 0"
  by (simp add: bitLength.simps)

lemma bitLength_double: "0 < n \<Longrightarrow> bitLength (2 * n) = Suc (bitLength n)"
  by (simp add: bitLength.simps [of "2 * n"])

lemma bitLength_shift: "0 < n \<Longrightarrow> bitLength (n * 2 ^ j) = bitLength n + j"
proof (induction j)
  case 0
  then show ?case by simp
next
  case (Suc j)
  have "0 < n * 2 ^ j" using Suc.prems by simp
  then have "bitLength (2 * (n * 2 ^ j)) = Suc (bitLength (n * 2 ^ j))"
    by (rule bitLength_double)
  moreover have "n * 2 ^ Suc j = 2 * (n * 2 ^ j)" by simp
  ultimately have "bitLength (n * 2 ^ Suc j) = Suc (bitLength (n * 2 ^ j))" by (simp only:)
  with Suc show ?case by simp
qed

lemma bitLength_bounds: "0 < n \<Longrightarrow> 2 ^ (bitLength n - 1) \<le> n \<and> n < 2 ^ bitLength n"
proof (induction n rule: bitLength.induct)
  case (1 n)
  show ?case
  proof (cases "n div 2 = 0")
    case True
    with "1.prems" have "n = 1" by (simp add: div_eq_0_iff)
    then show ?thesis by (simp add: bitLength.simps [of "Suc 0"] bitLength.simps [of 0])
  next
    case False
    with "1.IH" "1.prems" have ih: "2 ^ (bitLength (n div 2) - 1) \<le> n div 2"
      "n div 2 < 2 ^ bitLength (n div 2)" by simp_all
    have b: "bitLength n = Suc (bitLength (n div 2))"
      using "1.prems" by (simp add: bitLength.simps [of n])
    have pos: "0 < bitLength (n div 2)"
      using False by (simp add: bitLength.simps [of "n div 2"])
    then have "2 ^ bitLength (n div 2) = 2 * (2::nat) ^ (bitLength (n div 2) - 1)"
      by (cases "bitLength (n div 2)") simp_all
    with ih show ?thesis unfolding b by (simp; linarith)
  qed
qed

lemma bitLength_eqI: "2 ^ k \<le> n \<Longrightarrow> n < 2 ^ Suc k \<Longrightarrow> bitLength n = Suc k"
proof -
  assume a: "2 ^ k \<le> n" "n < 2 ^ Suc k"
  then have pos: "0 < n" by (metis gr0I not_less zero_less_numeral zero_less_power not_le)
  from bitLength_bounds [OF pos] have b: "2 ^ (bitLength n - 1) \<le> n" "n < 2 ^ bitLength n"
    by simp_all
  from a(1) b(2) have "(2::nat) ^ k < 2 ^ bitLength n" by (rule le_less_trans)
  then have "k < bitLength n" by simp
  moreover from b(1) a(2) have "(2::nat) ^ (bitLength n - 1) < 2 ^ Suc k" by (rule le_less_trans)
  then have "bitLength n - 1 < Suc k"
    by (simp only: power_strict_increasing_iff one_less_numeral_iff semiring_norm)
  ultimately show ?thesis by simp
qed

lemma roundTiesToEven_of_int: "roundTiesToEven (real_of_int i) = i"
  by (simp add: roundTiesToEven_def)

text \<open>A whole number below \<open>2^24\<close> is a float32.\<close>

lemma fround_nat:
  assumes "s < 2 ^ 24"
  shows "fround (real s) = Num (real s)"
proof (cases "s = 0")
  case True
  then show ?thesis by (simp add: fround_def bitLength_0 roundTiesToEven_def)
next
  case False
  define b where "b = bitLength s"
  from False have pos: "0 < s" by simp
  from bitLength_bounds [OF pos] have lo: "2 ^ (b - 1) \<le> s" and hi: "s < 2 ^ b"
    by (simp_all add: b_def)
  have b1: "1 \<le> b" using pos by (simp add: b_def bitLength.simps [of s])
  have "(2::nat) ^ (b - 1) < 2 ^ 24" using lo assms by (rule le_less_trans)
  then have "b - 1 < 24"
    by (simp only: power_strict_increasing_iff one_less_numeral_iff semiring_norm)
  with b1 have b24: "b \<le> 24" by simp
  have fl: "nat \<lfloor>\<bar>real s\<bar> * 2 ^ 149\<rfloor> = s * 2 ^ 149"
  proof -
    have "\<bar>real s\<bar> * 2 ^ 149 = real (s * 2 ^ 149)" by simp
    then show ?thesis by (simp only: floor_of_nat nat_int)
  qed
  have len: "bitLength (s * 2 ^ 149) = b + 149"
    unfolding b_def by (rule bitLength_shift [OF pos])
  have e: "max (int (b + 149) - 150) (- 126) = int b - 1" using b1 by simp
  have k: "nat (int b - 1 + 126) = b + 125" using b1 by simp
  have pow: "(2::real) ^ 149 = 2 ^ (24 - b) * 2 ^ (b + 125)"
    using b24 by (simp add: power_add [symmetric])
  have quot: "real s * 2 ^ 149 / 2 ^ (b + 125) = real_of_int (int (s * 2 ^ (24 - b)))"
    by (subst pow) simp
  have again: "real_of_int (int (s * 2 ^ (24 - b))) * 2 ^ (b + 125) / 2 ^ 149 = real s"
    by (subst pow) simp
  have small: "\<not> 2 ^ 128 \<le> \<bar>real s\<bar>"
  proof -
    have "real s < 2 ^ 24" using assms by (metis of_nat_less_iff of_nat_numeral of_nat_power)
    also have "\<dots> \<le> 2 ^ 128" by simp
    finally show ?thesis by simp
  qed
  show ?thesis
    unfolding fround_def Let_def fl len e k quot roundTiesToEven_of_int again
    using small by simp
qed

text \<open>The float32s of the numbers in the sample loads.\<close>

lemma fround_0: "fround 0 = Num 0"
  using fround_nat [of 0] by simp

lemma fround_1: "fround 1 = Num 1"
  using fround_nat [of 1] by simp

lemma fround_minus_1: "fround (- 1) = Num (- 1)"
proof -
  have "nat \<lfloor>\<bar>- 1 :: real\<bar> * 2 ^ 149\<rfloor> = 2 ^ 149"
    by simp
  moreover have "bitLength (2 ^ 149) = Suc 149"
    by (rule bitLength_eqI) simp_all
  ultimately show ?thesis
    by (simp add: fround_def Let_def roundTiesToEven_def)
qed

lemma fround_minus_half: "fround (- (1 / 2)) = Num (- (1 / 2))"
proof -
  have "nat \<lfloor>\<bar>- (1 / 2) :: real\<bar> * 2 ^ 149\<rfloor> = 2 ^ 148"
    by simp
  moreover have "bitLength (2 ^ 148) = Suc 148"
    by (rule bitLength_eqI) simp_all
  ultimately show ?thesis
    by (simp add: fround_def Let_def roundTiesToEven_def)
qed

lemma fround_rounding_host:
  "fround (5279521361344137 / 2 ^ 50) = Num (9833875 / 2 ^ 21)"
proof -
  have "nat \<lfloor>\<bar>5279521361344137 / 2 ^ 50 :: real\<bar> * 2 ^ 149\<rfloor> = 5279521361344137 * 2 ^ 99"
    by simp
  moreover have "bitLength (5279521361344137 * 2 ^ 99) = Suc 151"
    by (rule bitLength_eqI) simp_all
  ultimately show ?thesis
    by (simp add: fround_def Let_def roundTiesToEven_def)
qed

lemma fround_16777219: "fround 16777219 = Num 16777220"
proof -
  have "nat \<lfloor>\<bar>16777219 :: real\<bar> * 2 ^ 149\<rfloor> = 16777219 * 2 ^ 149"
    by simp
  moreover have "bitLength (16777219 * 2 ^ 149) = Suc 173"
    by (rule bitLength_eqI) simp_all
  ultimately show ?thesis
    by (simp add: fround_def Let_def roundTiesToEven_def)
qed

lemmas fround_samples = fround_0 fround_1 fround_minus_1 fround_minus_half

subsection \<open>Batches\<close>

lemma processPixels_invariant:
  assumes step: "\<And>s. P s \<Longrightarrow> idx s < 4 * (width im * height im) \<Longrightarrow> P (processPixel h im s)"
  shows "P st \<Longrightarrow> P (fst (processPixels h im budget st))"
proof (induction budget arbitrary: st)
  case 0
  then show ?case by (simp add: processPixels.simps [of h im 0 st] step)
next
  case (Suc k)
  show ?case
  proof (cases "idx st < 4 * (width im * height im)")
    case True
    with Suc.prems have "P (processPixel h im st)" by (simp add: step)
    from Suc.IH [OF this] True show ?thesis
      by (simp add: processPixels.simps [of h im "Suc k" st])
  next
    case False
    with Suc.prems show ?thesis by (simp add: processPixels.simps [of h im "Suc k" st])
  qed
qed

lemma processPixels_resolved:
  "processPixels h im budget st = (st', True) \<Longrightarrow> \<not> idx st' < 4 * (width im * height im)"
proof (induction budget arbitrary: st)
  case 0
  then show ?case by (simp add: processPixels.simps [of h im 0 st] split: if_splits)
next
  case (Suc k)
  then show ?case by (simp add: processPixels.simps [of h im "Suc k" st] split: if_splits)
qed

lemma scheduleWork_invariant:
  "(\<And>s. P s \<Longrightarrow> idx s < 4 * (width im * height im) \<Longrightarrow> P (processPixel h im s)) \<Longrightarrow>
   (\<And>s. P s \<Longrightarrow> P (timerSet s)) \<Longrightarrow> (\<And>s b. P s \<Longrightarrow> P (gap b s)) \<Longrightarrow>
   P st \<Longrightarrow> P (closure (scheduleWork h im sched i st))"
proof (induction h im sched i st rule: scheduleWork.induct)
  case (1 h im sched i st)
  note step = "1.prems"(1) and timer = "1.prems"(2) and gap = "1.prems"(3) and P = "1.prems"(4)
  show ?case
  proof (cases "isCancelled (loader.options st)")
    case True
    with P show ?thesis by (simp add: scheduleWork.simps [of h im sched i st])
  next
    case False
    obtain st' fin where run: "processPixels h im (snd (sched i)) (gap (fst (sched i)) (timerSet st)) = (st', fin)"
      by (cases "processPixels h im (snd (sched i)) (gap (fst (sched i)) (timerSet st))")
    have "P (gap (fst (sched i)) (timerSet st))" using P by (simp add: timer gap)
    from processPixels_invariant [of P im h, OF step this, of "snd (sched i)"] run
    have P': "P st'" by simp
    show ?thesis
    proof (cases fin)
      case True
      with False run P' show ?thesis by (simp add: scheduleWork.simps [of h im sched i st])
    next
      case fin: False
      from fin have "fin = False" by simp
      from "1.IH" [OF False run [symmetric] this step timer gap P']
      have "P (closure (scheduleWork h im sched (Suc i) st'))" .
      with False run fin show ?thesis by (simp add: scheduleWork.simps [of h im sched i st])
    qed
  qed
qed

lemma scheduleWork_resolved:
  "scheduleWork h im sched i st = Resolved st' \<Longrightarrow> \<not> idx st' < 4 * (width im * height im)"
proof (induction h im sched i st rule: scheduleWork.induct)
  case (1 h im sched i st)
  from "1.prems" have live: "\<not> isCancelled (loader.options st)"
    by (auto simp: scheduleWork.simps [of h im sched i st] split: if_splits)
  obtain s fin where run: "processPixels h im (snd (sched i)) (gap (fst (sched i)) (timerSet st)) = (s, fin)"
    by (cases "processPixels h im (snd (sched i)) (gap (fst (sched i)) (timerSet st))")
  show ?case
  proof (cases fin)
    case True
    with "1.prems" live run have "s = st'" by (simp add: scheduleWork.simps [of h im sched i st])
    with run True have "processPixels h im (snd (sched i)) (gap (fst (sched i)) (timerSet st)) = (st', True)"
      by simp
    then show ?thesis by (rule processPixels_resolved)
  next
    case False
    with "1.prems" live run have next_run: "scheduleWork h im sched (Suc i) s = Resolved st'"
      by (simp add: scheduleWork.simps [of h im sched i st])
    from False have "fin = False" by simp
    from "1.IH" [OF live run [symmetric] this next_run] show ?thesis .
  qed
qed


lemma Math_round_bounds:
  assumes "0 \<le> v" and "v \<le> 1"
  shows "0 \<le> Math_round (v * real n) \<and> Math_round (v * real n) \<le> int n"
proof -
  have nonneg: "0 \<le> v * real n" using assms by simp
  have below: "v * real n \<le> real n" using assms by (simp add: mult_left_le_one_le)
  have "0 \<le> \<lfloor>v * real n + 1 / 2\<rfloor>" using nonneg by simp
  moreover have "\<lfloor>v * real n + 1 / 2\<rfloor> \<le> int n"
  proof -
    have "v * real n + 1 / 2 < real_of_int (int n + 1)" using below by simp
    then have "\<lfloor>v * real n + 1 / 2\<rfloor> < int n + 1" by (simp only: floor_less_iff)
    then show ?thesis by simp
  qed
  ultimately show ?thesis by (simp add: Math_round_def)
qed

lemma bucketNumber_range:
  assumes "0 \<le> v" and "v \<le> 1" and "0 < n"
  shows "0 \<le> bucketNumber v n \<and> bucketNumber v n < int n"
  using Math_round_bounds [OF assms(1,2), of n] assms(3)
  by (auto simp: bucketNumber_def Let_def)

text \<open>
  C9 (confirmed). Whenever the loop body runs (\<open>idx < 4 * width * height\<close>, so
  there is a bucket) on a pixel whose value lies in \<open>[0,1]\<close>, the bucket number
  lies in \<open>[0, bucketsCount)\<close>, and the access to the occupancy array, which has
  \<open>bucketsCount\<close> cells, is inside the array.
\<close>

theorem bucketNumber_in_bounds:
  assumes "0 \<le> v" and "v \<le> 1"
      and "idx st < 4 * (width im * height im)"
      and "length (bucketColors st) = bucketsCount im"
  shows "0 \<le> bucketNumber v (bucketsCount im) \<and>
         bucketNumber v (bucketsCount im) < int (bucketsCount im) \<and>
         incrementBucket (bucketColors st) (bucketNumber v (bucketsCount im)) =
           ((bucketColors st)[nat (bucketNumber v (bucketsCount im)) :=
               (bucketColors st ! nat (bucketNumber v (bucketsCount im)) + 1) mod 2 ^ 32],
            Some (bucketColors st ! nat (bucketNumber v (bucketsCount im)) + 1))"
proof -
  from assms(3) have "0 < bucketsCount im"
    by (cases "width im * height im = 0") (simp_all add: bucketsCount_def)
  from bucketNumber_range [OF assms(1,2) this] assms(4) show ?thesis
    by (simp add: incrementBucket_def)
qed

theorem bucketNumber_in_bounds_witness:
  "(0::real) \<le> 1 \<and> (1::real) \<le> 1 \<and>
   idx (initialLoader example_image example_settings 0) < 4 * (width example_image * height example_image) \<and>
   length (bucketColors (initialLoader example_image example_settings 0)) = bucketsCount example_image \<and>
   bucketNumber 1 (bucketsCount example_image) = 1 \<and>
   incrementBucket (bucketColors (initialLoader example_image example_settings 0))
     (bucketNumber 1 (bucketsCount example_image)) = ([0, 1], Some 1)"
proof -
  have h: "(0::real) \<le> 1" "(1::real) \<le> 1"
    "idx (initialLoader example_image example_settings 0) < 4 * (width example_image * height example_image)"
    "length (bucketColors (initialLoader example_image example_settings 0)) = bucketsCount example_image"
    by (simp_all add: initialLoader_def bucketsCount_def example_image_def Let_def)
  have b: "bucketNumber 1 (bucketsCount example_image) = 1"
    by (simp add: bucketNumber_def Math_round_def bucketsCount_def example_image_def)
  have cells: "bucketColors (initialLoader example_image example_settings 0) = [0, 0]"
    by (simp add: initialLoader_def bucketsCount_def example_image_def Let_def numeral_eq_Suc)
  from bucketNumber_in_bounds [OF h]
  have "incrementBucket (bucketColors (initialLoader example_image example_settings 0))
     (bucketNumber 1 (bucketsCount example_image)) = ([0, 1], Some 1)"
    by (simp add: b cells)
  with h b show ?thesis by simp
qed

subsection \<open>Running the engine on the samples\<close>

lemma scheduleWork_unfold:
  "scheduleWork h im sched i st =
     (if isCancelled (loader.options st) then NeverResolved st
      else if snd (processPixels h im (snd (sched i)) (gap (fst (sched i)) (timerSet st)))
      then Resolved (fst (processPixels h im (snd (sched i)) (gap (fst (sched i)) (timerSet st))))
      else scheduleWork h im sched (Suc i)
             (fst (processPixels h im (snd (sched i)) (gap (fst (sched i)) (timerSet st)))))"
  by (simp add: scheduleWork.simps [of h im sched i st] split: prod.splits)

lemma processPixels_0:
  "processPixels h im 0 st =
     (if idx st < 4 * (width im * height im) then (processPixel h im st, False) else (st, True))"
  by (simp add: processPixels.simps [of h im 0 st])

lemma processPixels_Suc:
  "processPixels h im (Suc k) st =
     (if idx st < 4 * (width im * height im) then processPixels h im k (processPixel h im st)
      else (st, True))"
  by (simp add: processPixels.simps [of h im "Suc k" st])

lemma processPixels_numeral:
  "processPixels h im (numeral k) st =
     (if idx st < 4 * (width im * height im)
      then processPixels h im (pred_numeral k) (processPixel h im st)
      else (st, True))"
  by (simp add: numeral_eq_Suc processPixels_Suc)

lemma example_initialLoader:
  "initialLoader example_image settings seed =
     \<lparr>particles.minFrameSpan = POSITIVE_INFINITY, maxFrameSpan = NEGATIVE_INFINITY,
      particleAttributes = [Num 0, Num 0, Num 0, Num 0, Num 0, Num 0, Num 0, Num 0],
      maxYValue = 0, idx = 0, initIntervals = 0, bucketColors = [0, 0],
      options = settings, onProgress = [], drawn = seed\<rparr>"
  by (simp add: initialLoader_def bucketsCount_def example_image_def Let_def numeral_eq_Suc)

lemma example_first_pixel:
  "processPixel example_host example_image
     \<lparr>particles.minFrameSpan = POSITIVE_INFINITY, maxFrameSpan = NEGATIVE_INFINITY,
      particleAttributes = [Num 0, Num 0, Num 0, Num 0, Num 0, Num 0, Num 0, Num 0],
      maxYValue = 0, idx = 0, initIntervals = batches, bucketColors = [0, 0],
      options = settings, onProgress = reports, drawn = 0\<rparr> =
     \<lparr>particles.minFrameSpan = Num (- 1), maxFrameSpan = Num (- 1),
      particleAttributes = [Num 0, Num 0, Num (- 1), Num 1, Num 0, Num 0, Num 0, Num 0],
      maxYValue = 1, idx = 4, initIntervals = batches, bucketColors = [1, 0],
      options = settings, onProgress = reports, drawn = 1\<rparr>"
  by (simp add: processPixel_def Let_def getValue_def bucketNumber_def Math_round_def
      incrementBucket_def example_host_def example_image_def fround_samples)

lemma example_second_pixel:
  "processPixel example_host example_image
     \<lparr>particles.minFrameSpan = Num (- 1), maxFrameSpan = Num (- 1),
      particleAttributes = [Num 0, Num 0, Num (- 1), Num 1, Num 0, Num 0, Num 0, Num 0],
      maxYValue = Suc 0, idx = 4, initIntervals = batches, bucketColors = [Suc 0, 0],
      options = settings, onProgress = reports, drawn = Suc 0\<rparr> =
     \<lparr>particles.minFrameSpan = Num (- 1), maxFrameSpan = Num (- (1 / 2)),
      particleAttributes = [Num 0, Num 0, Num (- 1), Num 1, Num 1, Num 0, Num (- (1 / 2)), Num 0],
      maxYValue = 1, idx = 8, initIntervals = batches, bucketColors = [1, 1],
      options = settings, onProgress = reports, drawn = 2\<rparr>"
  by (simp add: processPixel_def Let_def getValue_def bucketNumber_def Math_round_def
      incrementBucket_def example_host_def example_image_def fround_samples)

lemma example_size: "width example_image = 2" "height example_image = 1"
  by (simp_all add: example_image_def)

lemma example_canvas:
  "canvasError example_host example_image = None"
  "canvasError example_host empty_image = Some (DOMException ''IndexSizeError'')"
  by (simp_all add: example_host_def example_image_def empty_image_def)

lemmas example_run = example_size example_canvas loadParticles_def example_initialLoader scheduleWork_unfold processPixels_0
  processPixels_Suc processPixels_numeral timerSet_def gap_def Let_def example_first_pixel
  example_second_pixel uninterrupted_def cancelledBefore_def example_settings_def

text \<open>The sample load, in one batch and in two.\<close>

lemma example_load:
  "map_sum id resolvedWith
     (loadParticles example_host (uninterrupted 5) 0 example_image (Some example_settings))
     = Inr (Some example_particles) \<and>
   map_sum id resolvedWith
     (loadParticles example_host (uninterrupted 0) 0 example_image (Some example_settings))
     = Inr (Some example_particles)"
  by (simp add: example_run particles.truncate_def example_particles_def split del: if_split)

lemma example_resolves:
  "loadParticles example_host (uninterrupted 5) 0 example_image (Some example_settings) =
     Inr (Resolved example_closure)"
  by (simp add: example_run example_closure_def split del: if_split)

lemma length_bucketColors_processPixel:
  "length (bucketColors (processPixel h im st)) = length (bucketColors st)"
  by (simp add: processPixel_def incrementBucket_def Let_def split: prod.splits)

lemma bucketColors_timerSet: "bucketColors (timerSet st) = bucketColors st"
  by (simp add: timerSet_def Let_def)

lemma bucketColors_gap: "bucketColors (gap b st) = bucketColors st"
  by (simp add: gap_def)

lemma scheduleWork_bucketsCount:
  assumes "length (bucketColors st) = n"
  shows "length (bucketColors (closure (scheduleWork h im sched i st))) = n"
  by (rule scheduleWork_invariant [where P = "\<lambda>s. length (bucketColors s) = n"])
    (simp_all add: assms length_bucketColors_processPixel bucketColors_timerSet bucketColors_gap)

text \<open>Every pixel is processed when the promise resolves.\<close>

lemma scheduleWork_complete:
  assumes "idx st mod 4 = 0" and "idx st \<le> 4 * (width im * height im)"
      and "scheduleWork h im sched i st = Resolved st'"
  shows "idx st' = 4 * (width im * height im)"
proof -
  have "idx (closure (scheduleWork h im sched i st)) mod 4 = 0 \<and>
        idx (closure (scheduleWork h im sched i st)) \<le> 4 * (width im * height im)"
  proof (rule scheduleWork_invariant
      [where P = "\<lambda>s. idx s mod 4 = 0 \<and> idx s \<le> 4 * (width im * height im)"])
    fix s :: loader
    assume "idx s mod 4 = 0 \<and> idx s \<le> 4 * (width im * height im)"
      and "idx s < 4 * (width im * height im)"
    then show "idx (processPixel h im s) mod 4 = 0 \<and>
        idx (processPixel h im s) \<le> 4 * (width im * height im)"
      by (simp add: idx_processPixel) presburger
  qed (simp_all add: idx_timerSet idx_gap assms)
  with assms(3) scheduleWork_resolved [OF assms(3)] show ?thesis by simp
qed


text \<open>
  C2 (corrected). The engine fixes the number of buckets to the number of
  pixels (\<^verbatim>\<open>var bucketsCount = n; // TODO: Customize?\<close>): \<open>pixChart\<close> keeps
  \<open>options.bucketCount\<close> in its options and hands the engine settings without
  it, and whatever the run, the engine's occupancy array has \<open>width * height\<close>
  cells.
\<close>

theorem buckets_are_pixels:
  assumes "pixChart link (Some opts) = Inr c"
  shows "pixChart link (Some (opts\<lparr>options.bucketCount := b\<rparr>)) =
           Inr (c\<lparr>chart.options := opts\<lparr>options.bucketCount := b\<rparr>\<rparr>) \<and>
         particleLoaderSettings (c\<lparr>chart.options := opts\<lparr>options.bucketCount := b\<rparr>\<rparr>) =
           particleLoaderSettings c \<and>
         (\<forall>out. loadParticles h sched seed im (Some (particleLoaderSettings c)) = Inr out \<longrightarrow>
            length (bucketColors (closure out)) = bucketsCount im \<and>
            bucketsCount im = width im * height im)"
proof -
  have "length (bucketColors (closure (scheduleWork h im sched 0
          (initialLoader im (particleLoaderSettings c) seed)))) = width im * height im"
    by (rule scheduleWork_bucketsCount) (simp add: initialLoader_def bucketsCount_def Let_def)
  then have "\<forall>out. loadParticles h sched seed im (Some (particleLoaderSettings c)) = Inr out \<longrightarrow>
            length (bucketColors (closure out)) = bucketsCount im \<and>
            bucketsCount im = width im * height im"
    by (auto simp: loadParticles_def bucketsCount_def split: option.splits)
  moreover from assms have "pixChart link (Some (opts\<lparr>options.bucketCount := b\<rparr>)) =
           Inr (c\<lparr>chart.options := opts\<lparr>options.bucketCount := b\<rparr>\<rparr>)"
    by (auto simp: pixChart_def Let_def startAnimationPipeline_def split: if_splits)
  ultimately show ?thesis by simp
qed

theorem buckets_are_pixels_witness:
  "pixChart ''picture'' (Some example_options) =
     Inr (example_chart\<lparr>currentFrameNumber := Num 0, chart.minFrameSpan := NaN,
            chart.maxFrameSpan := NaN, frameChangeRate := NaN, imgInfo := None,
            particleAttributesBuffer := False\<rparr>) \<and>
   map_sum id (bucketColors \<circ> closure)
     (loadParticles example_host (uninterrupted 5) 0 example_image
        (Some (particleLoaderSettings
           (example_chart\<lparr>currentFrameNumber := Num 0, chart.minFrameSpan := NaN,
              chart.maxFrameSpan := NaN, frameChangeRate := NaN, imgInfo := None,
              particleAttributesBuffer := False\<rparr>)))) = Inr [1, 1]"
proof -
  have h: "pixChart ''picture'' (Some example_options) =
     Inr (example_chart\<lparr>currentFrameNumber := Num 0, chart.minFrameSpan := NaN,
            chart.maxFrameSpan := NaN, frameChangeRate := NaN, imgInfo := None,
            particleAttributesBuffer := False\<rparr>)"
    by (simp add: pixChart_def example_options_def Let_def initialState_def framesCountOr120_def
        startAnimationPipeline_def example_chart_def)
  have s: "particleLoaderSettings
           (example_chart\<lparr>currentFrameNumber := Num 0, chart.minFrameSpan := NaN,
              chart.maxFrameSpan := NaN, frameChangeRate := NaN, imgInfo := None,
              particleAttributesBuffer := False\<rparr>) =
          \<lparr>isCancelled = False, particleLoaderSettings.framesCount = Num 4\<rparr>"
    by (simp add: example_chart_def)
  show ?thesis
    using buckets_are_pixels [OF h, of "Some (Num 1)" example_host "uninterrupted 5" 0 example_image] h
    by (simp add: s example_run split del: if_split)
qed

text \<open>
  The claim fails on the sample load: a chart made with \<open>bucketCount = 1\<close>
  hands the engine the settings it hands it otherwise, and the two pixels are
  counted in two buckets.
\<close>

theorem buckets_are_pixels_counterexample:
  "map_sum id particleLoaderSettings
     (pixChart ''picture'' (Some (example_options\<lparr>options.bucketCount := Some (Num 1)\<rparr>)))
     = Inr \<lparr>isCancelled = False, particleLoaderSettings.framesCount = Num 4\<rparr> \<and>
   map_sum id (bucketColors \<circ> closure)
     (loadParticles example_host (uninterrupted 5) 0 example_image
        (Some \<lparr>isCancelled = False, particleLoaderSettings.framesCount = Num 4\<rparr>)) = Inr [1, 1]"
  by (simp add: pixChart_def example_options_def Let_def initialState_def framesCountOr120_def
      startAnimationPipeline_def example_run split del: if_split)

lemma progress_notifyProgress: "chart.progress (notifyProgress c) = chart.progress c"
  by (simp add: notifyProgress_def)




text \<open>
  The chain of \<open>setMaxPixels\<close> has no \<^verbatim>\<open>catch\<close>, unlike that of
  \<open>startAnimationPipeline\<close>: an exception of the engine is reported by no
  step there, and the last step stays \<open>'pixels'\<close>.
\<close>

lemma setMaxPixels_unreported:
  "canvasError h im = Some e \<Longrightarrow>
     step (chart.progress (setMaxPixels_loaded h sched seed im c)) = ''pixels''"
  by (simp add: setMaxPixels_loaded_def updateProgressAndLoadParticles_def Let_def
      loadParticles_def progress_notifyProgress)

text \<open>
  A batch leaves its loop by the loop test, and resolves the promise, when
  the pixels left are within its clock budget; otherwise it leaves by the
  clock test, also when that test follows the last pixel.
\<close>

lemma processPixels_in_budget:
  "idx st = 4 * k \<Longrightarrow> k \<le> width im * height im \<Longrightarrow>
     snd (processPixels h im budget st) = (width im * height im - k \<le> budget)"
proof (induction budget arbitrary: st k)
  case 0
  then show ?case by (auto simp: processPixels.simps [of h im 0 st])
next
  case (Suc b)
  show ?case
  proof (cases "k < width im * height im")
    case True
    with Suc.prems have below: "idx st < 4 * (width im * height im)" by simp
    have "idx (processPixel h im st) = 4 * Suc k" using Suc.prems by (simp add: idx_processPixel)
    from Suc.IH [OF this] True
    have "snd (processPixels h im b (processPixel h im st)) = (width im * height im - Suc k \<le> b)"
      by simp
    with below True show ?thesis
      by (simp add: processPixels.simps [of h im "Suc b" st]) linarith
  next
    case False
    with Suc.prems show ?thesis by (simp add: processPixels.simps [of h im "Suc b" st])
  qed
qed

text \<open>
  C8 (corrected). The flag is read by \<open>scheduleWork\<close> only, at the end of a
  batch, before the next timer is set; the owner can set it only while a
  timer is pending. A \<open>scheduleWork\<close> that finds the flag set processes no
  further pixel and the promise never resolves. A flag set while the timer
  of a batch is pending lets exactly that batch run: the promise resolves
  if the batch leaves its loop by the loop test, which it does exactly when
  the pixels left are within its clock budget, and otherwise never, also
  when the batch has processed the last pixel and then finds its 12 ms
  exceeded. A promise that resolves has every pixel processed, so no partial
  buffer is delivered.
\<close>

theorem cancellation_takes_effect_at_scheduleWork:
  "(isCancelled (loader.options st) \<longrightarrow> scheduleWork h im sched i st = NeverResolved st) \<and>
   (\<not> isCancelled (loader.options st) \<and> fst (sched i) \<longrightarrow>
      scheduleWork h im sched i st =
        (if snd (processPixels h im (snd (sched i)) (gap True (timerSet st)))
         then Resolved (fst (processPixels h im (snd (sched i)) (gap True (timerSet st))))
         else NeverResolved (fst (processPixels h im (snd (sched i)) (gap True (timerSet st)))))) \<and>
   (\<forall>k. idx st = 4 * k \<and> k \<le> width im * height im \<longrightarrow>
      snd (processPixels h im (snd (sched i)) (gap True (timerSet st))) =
        (width im * height im - k \<le> snd (sched i))) \<and>
   (\<forall>st'. idx st mod 4 = 0 \<and> idx st \<le> 4 * (width im * height im) \<and>
      scheduleWork h im sched i st = Resolved st' \<longrightarrow> idx st' = 4 * (width im * height im))"
proof (intro conjI impI allI)
  assume "isCancelled (loader.options st)"
  then show "scheduleWork h im sched i st = NeverResolved st"
    by (simp add: scheduleWork.simps [of h im sched i st])
next
  assume a: "\<not> isCancelled (loader.options st) \<and> fst (sched i)"
  define s where "s = fst (processPixels h im (snd (sched i)) (gap True (timerSet st)))"
  have flag: "isCancelled (loader.options s)"
    unfolding s_def
    by (rule processPixels_invariant [where P = "\<lambda>s. isCancelled (loader.options s)"])
      (simp_all add: processPixel_def Let_def gap_def split: prod.splits)
  then have "scheduleWork h im sched (Suc i) s = NeverResolved s"
    by (simp add: scheduleWork.simps [of h im sched "Suc i" s])
  with a show "scheduleWork h im sched i st =
        (if snd (processPixels h im (snd (sched i)) (gap True (timerSet st)))
         then Resolved (fst (processPixels h im (snd (sched i)) (gap True (timerSet st))))
         else NeverResolved (fst (processPixels h im (snd (sched i)) (gap True (timerSet st)))))"
    by (simp add: scheduleWork_unfold [of h im sched i st] s_def)
next
  fix k
  assume "idx st = 4 * k \<and> k \<le> width im * height im"
  then show "snd (processPixels h im (snd (sched i)) (gap True (timerSet st))) =
        (width im * height im - k \<le> snd (sched i))"
    by (intro processPixels_in_budget) (simp_all add: idx_gap idx_timerSet)
next
  fix st'
  assume "idx st mod 4 = 0 \<and> idx st \<le> 4 * (width im * height im) \<and>
      scheduleWork h im sched i st = Resolved st'"
  then show "idx st' = 4 * (width im * height im)"
    using scheduleWork_complete [of st im h sched i st'] by simp
qed

theorem cancellation_takes_effect_at_scheduleWork_witness:
  "isCancelled (loader.options (initialLoader example_image (example_settings\<lparr>isCancelled := True\<rparr>) 0)) \<and>
   scheduleWork example_host example_image (uninterrupted 5) 0
       (initialLoader example_image (example_settings\<lparr>isCancelled := True\<rparr>) 0) =
     NeverResolved (initialLoader example_image (example_settings\<lparr>isCancelled := True\<rparr>) 0) \<and>
   \<not> isCancelled (loader.options (initialLoader example_image example_settings 0)) \<and>
   fst (cancelledBefore 0 0 0) \<and>
   map_sum id (idx \<circ> closure)
     (loadParticles example_host (cancelledBefore 0 0) 0 example_image (Some example_settings)) = Inr 4 \<and>
   map_sum id resolvedWith
     (loadParticles example_host (cancelledBefore 0 0) 0 example_image (Some example_settings)) = Inr None \<and>
   fst (cancelledBefore 0 (Suc 0) 0) \<and>
   map_sum id (idx \<circ> closure)
     (loadParticles example_host (cancelledBefore 0 (Suc 0)) 0 example_image (Some example_settings)) = Inr 8 \<and>
   map_sum id resolvedWith
     (loadParticles example_host (cancelledBefore 0 (Suc 0)) 0 example_image (Some example_settings)) = Inr None \<and>
   idx (initialLoader example_image example_settings 0) = 4 * 0 \<and>
   0 \<le> width example_image * height example_image \<and>
   snd (processPixels example_host example_image (snd (cancelledBefore 0 (Suc 0) 0))
          (gap True (timerSet (initialLoader example_image example_settings 0)))) = False \<and>
   idx (initialLoader example_image example_settings 0) mod 4 = 0 \<and>
   idx (initialLoader example_image example_settings 0) \<le> 4 * (width example_image * height example_image) \<and>
   scheduleWork example_host example_image (uninterrupted 5) 0
       (initialLoader example_image example_settings 0) = Resolved example_closure \<and>
   idx example_closure = 4 * (width example_image * height example_image)"
proof -
  have a: "isCancelled (loader.options (initialLoader example_image (example_settings\<lparr>isCancelled := True\<rparr>) 0))"
    by (simp add: example_initialLoader)
  have b: "\<not> isCancelled (loader.options (initialLoader example_image example_settings 0)) \<and>
      fst (cancelledBefore 0 0 0)"
    by (simp add: example_initialLoader example_settings_def cancelledBefore_def)
  have c: "idx (initialLoader example_image example_settings 0) mod 4 = 0 \<and>
      idx (initialLoader example_image example_settings 0) \<le> 4 * (width example_image * height example_image) \<and>
      scheduleWork example_host example_image (uninterrupted 5) 0
       (initialLoader example_image example_settings 0) = Resolved example_closure"
    using example_resolves by (simp add: loadParticles_def example_initialLoader example_canvas)
  note first = cancellation_takes_effect_at_scheduleWork
    [of "initialLoader example_image (example_settings\<lparr>isCancelled := True\<rparr>) 0"
      example_host example_image "uninterrupted 5" 0, THEN conjunct1, rule_format]
  note third = cancellation_takes_effect_at_scheduleWork
    [of "initialLoader example_image example_settings 0"
      example_host example_image "uninterrupted 5" 0,
      THEN conjunct2, THEN conjunct2, THEN conjunct2, rule_format]
  have a': "scheduleWork example_host example_image (uninterrupted 5) 0
       (initialLoader example_image (example_settings\<lparr>isCancelled := True\<rparr>) 0) =
     NeverResolved (initialLoader example_image (example_settings\<lparr>isCancelled := True\<rparr>) 0)"
    by (rule first [OF a])
  have c': "idx example_closure = 4 * (width example_image * height example_image)"
    by (rule third [OF c])
  note second = cancellation_takes_effect_at_scheduleWork
    [of "initialLoader example_image example_settings 0"
      example_host example_image "cancelledBefore 0 0" 0, THEN conjunct2, THEN conjunct1, rule_format]
  from second [OF b]
  have b': "map_sum id (idx \<circ> closure)
     (loadParticles example_host (cancelledBefore 0 0) 0 example_image (Some example_settings)) = Inr 4 \<and>
   map_sum id resolvedWith
     (loadParticles example_host (cancelledBefore 0 0) 0 example_image (Some example_settings)) = Inr None"
    by (simp add: example_run split del: if_split)
  have d: "\<not> isCancelled (loader.options (initialLoader example_image example_settings 0)) \<and>
      fst (cancelledBefore 0 (Suc 0) 0)"
    by (simp add: example_initialLoader example_settings_def cancelledBefore_def)
  note late = cancellation_takes_effect_at_scheduleWork
    [of "initialLoader example_image example_settings 0"
      example_host example_image "cancelledBefore 0 (Suc 0)" 0, THEN conjunct2, THEN conjunct1, rule_format]
  from late [OF d]
  have d': "map_sum id (idx \<circ> closure)
     (loadParticles example_host (cancelledBefore 0 (Suc 0)) 0 example_image (Some example_settings)) = Inr 8 \<and>
   map_sum id resolvedWith
     (loadParticles example_host (cancelledBefore 0 (Suc 0)) 0 example_image (Some example_settings)) = Inr None"
    by (simp add: example_run split del: if_split)
  have e: "idx (initialLoader example_image example_settings 0) = 4 * 0 \<and>
      0 \<le> width example_image * height example_image"
    by (simp add: example_initialLoader)
  note budget = cancellation_takes_effect_at_scheduleWork
    [of "initialLoader example_image example_settings 0"
      example_host example_image "cancelledBefore 0 (Suc 0)" 0,
      THEN conjunct2, THEN conjunct2, THEN conjunct1, rule_format]
  from budget [OF e]
  have e': "snd (processPixels example_host example_image (snd (cancelledBefore 0 (Suc 0) 0))
          (gap True (timerSet (initialLoader example_image example_settings 0)))) = False"
    by (simp add: example_size cancelledBefore_def)
  from a a' b b' c c' d d' e e' show ?thesis by blast
qed

text \<open>
  The claim fails on the sample load. Cancelled while the timer of its first
  batch is pending, the load still runs that batch: with the clock budget
  for both pixels the promise then resolves, flag set, with the whole
  buffer; with the budget for one pixel the batch processes that pixel
  (\<open>idx\<close> goes from 0 to 4) before the promise is abandoned.
\<close>

theorem cancellation_takes_effect_at_scheduleWork_counterexample:
  "map_sum id resolvedWith
     (loadParticles example_host (cancelledBefore 0 5) 0 example_image (Some example_settings))
     = Inr (Some example_particles) \<and>
   map_sum id (isCancelled \<circ> loader.options \<circ> closure)
     (loadParticles example_host (cancelledBefore 0 5) 0 example_image (Some example_settings))
     = Inr True \<and>
   map_sum id (idx \<circ> closure)
     (loadParticles example_host (cancelledBefore 0 0) 0 example_image (Some example_settings))
     = Inr 4 \<and>
   map_sum id (isCancelled \<circ> loader.options \<circ> closure)
     (loadParticles example_host (cancelledBefore 0 0) 0 example_image (Some example_settings))
     = Inr True"
  by (simp add: example_run particles.truncate_def example_particles_def split del: if_split)

subsection \<open>The layout of a finished load\<close>

text \<open>The loop body on a state that is laid out, written in full.\<close>

lemma processPixel_laid_out:
  assumes lay: "laid_out h im k st" and k: "k < width im * height im"
      and small: "width im * height im < 2 ^ 32"
      and v01: "0 \<le> particleValue h im k" "particleValue h im k \<le> 1"
  defines "n \<equiv> width im * height im"
  defines "v \<equiv> particleValue h im k"
  defines "b \<equiv> nat (particleBucket h im k)"
  defines "y \<equiv> bucketColors st ! b"
  defines "f \<equiv> gaussian h (drawn st)"
  shows "b < n"
    and "0 \<le> particleBucket h im k" and "particleBucket h im k < int n"
    and "processPixel h im st =
      st\<lparr>bucketColors := (bucketColors st)[b := y + 1],
         drawn := drawn st + 1,
         particleAttributes := (particleAttributes st)
           [4 * k := fround v, 4 * k + 1 := fround (real y), 4 * k + 2 := fround f,
            4 * k + 3 := fround (real (n - 1 - k))],
         particles.minFrameSpan := (if less_number (Num f) (particles.minFrameSpan st)
                                     then Num f else particles.minFrameSpan st),
         particles.maxFrameSpan := (if less_number (particles.maxFrameSpan st) (Num f)
                                     then Num f else particles.maxFrameSpan st),
         maxYValue := (if y + 1 > maxYValue st then y + 1 else maxYValue st),
         idx := 4 * k + 4\<rparr>"
proof -
  from lay have idx: "idx st = 4 * k" and len: "length (bucketColors st) = n"
    and total: "sum_list (bucketColors st) = k"
    by (simp_all add: laid_out_def n_def)
  have n0: "0 < n" using k unfolding n_def by linarith
  have bucket: "particleBucket h im k = bucketNumber v n"
    by (simp add: particleBucket_def v_def n_def bucketsCount_def)
  from bucketNumber_range [of v n] v01 n0
  show lo: "0 \<le> particleBucket h im k" and hi: "particleBucket h im k < int n"
    by (simp_all add: bucket v_def)
  then show bn: "b < n" by (simp add: b_def)
  have "y \<in> set (bucketColors st)" using bn len by (simp add: y_def)
  then have "y \<le> k" using total member_le_sum_list by fastforce
  then have "y + 1 < 2 ^ 32" using k small by simp
  then have wrap: "(y + 1) mod 2 ^ 32 = y + 1" by simp
  have inv: "4 * n - 4 * k - 4 = 4 * (n - 1 - k)" using k by (simp add: n_def)
  have px: "getValue h (data im ! (4 * n - 4 * k - 4 + 0)) (data im ! (4 * n - 4 * k - 4 + 1))
      (data im ! (4 * n - 4 * k - 4 + 2)) = v"
    by (simp only: v_def particleValue_def pixelValue_def n_def [symmetric] inv)
  have inc: "incrementBucket (bucketColors st) (bucketNumber v n) =
      ((bucketColors st)[b := y + 1], Some (y + 1))"
    using lo hi len wrap by (simp add: incrementBucket_def b_def y_def bucket)
  have src: "real (4 * n - 4 * k - 4) / 4 = real (n - 1 - k)"
    using inv by simp
  show "processPixel h im st =
      st\<lparr>bucketColors := (bucketColors st)[b := y + 1],
         drawn := drawn st + 1,
         particleAttributes := (particleAttributes st)
           [4 * k := fround v, 4 * k + 1 := fround (real y), 4 * k + 2 := fround f,
            4 * k + 3 := fround (real (n - 1 - k))],
         particles.minFrameSpan := (if less_number (Num f) (particles.minFrameSpan st)
                                     then Num f else particles.minFrameSpan st),
         particles.maxFrameSpan := (if less_number (particles.maxFrameSpan st) (Num f)
                                     then Num f else particles.maxFrameSpan st),
         maxYValue := (if y + 1 > maxYValue st then y + 1 else maxYValue st),
         idx := 4 * k + 4\<rparr>"
    unfolding processPixel_def Let_def idx n_def [symmetric] px inc src
    by (simp add: f_def)
qed

lemma tallest_update:
  assumes "\<forall>b\<in>set xs. b \<le> m" and "m = 0 \<or> m \<in> set xs" and "i < length xs"
  defines "m' \<equiv> (if xs ! i + 1 > m then xs ! i + 1 else (m::nat))"
  shows "(\<forall>b\<in>set (xs[i := xs ! i + 1]). b \<le> m') \<and> (m' = 0 \<or> m' \<in> set (xs[i := xs ! i + 1]))"
proof
  show "\<forall>b\<in>set (xs[i := xs ! i + 1]). b \<le> m'"
  proof
    fix b assume "b \<in> set (xs[i := xs ! i + 1])"
    then have "b = xs ! i + 1 \<or> b \<in> set xs"
      using set_update_subset_insert [of xs i "xs ! i + 1"] by auto
    with assms(1) show "b \<le> m'" by (auto simp: m'_def)
  qed
next
  show "m' = 0 \<or> m' \<in> set (xs[i := xs ! i + 1])"
  proof (cases "xs ! i + 1 > m")
    case True
    then have "m' = xs ! i + 1" by (simp add: m'_def)
    with assms(3) show ?thesis by (simp add: set_update_memI)
  next
    case False
    then have m': "m' = m" and pos: "m \<noteq> 0" and above: "xs ! i < m" by (simp_all add: m'_def)
    with assms(2) obtain i' where i': "i' < length xs" "xs ! i' = m"
      by (auto simp: in_set_conv_nth)
    with above have "i' \<noteq> i" by auto
    with i' have "(xs[i := xs ! i + 1]) ! i' = m" by simp
    with i' have "m \<in> set (xs[i := xs ! i + 1])"
      by (metis length_list_update nth_mem)
    with m' show ?thesis by simp
  qed
qed

lemma laid_out_processPixel:
  assumes lay: "laid_out h im k st" and k: "k < width im * height im"
      and small: "width im * height im < 2 ^ 32"
      and v01: "0 \<le> particleValue h im k" "particleValue h im k \<le> 1"
  shows "laid_out h im (Suc k) (processPixel h im st)"
proof -
  define n where "n = width im * height im"
  define v where "v = particleValue h im k"
  define b where "b = nat (particleBucket h im k)"
  define y where "y = bucketColors st ! b"
  define f where "f = gaussian h (drawn st)"
  define st' where "st' = processPixel h im st"
  note step = processPixel_laid_out [OF lay k small v01, folded n_def]
  from lay have len: "length (bucketColors st) = n" and plen: "length (particleAttributes st) = 4 * n"
    and total: "sum_list (bucketColors st) = k" and stk: "stacked h im k st" and spn: "spanned k st"
    and tal: "tallest st"
    by (simp_all add: laid_out_def n_def)
  have count: "bucketsCount im = n" by (simp add: bucketsCount_def n_def)
  have bn: "b < n" and lo: "0 \<le> particleBucket h im k" and hi: "particleBucket h im k < int n"
    using step(1-3) unfolding b_def by simp_all
  have kn: "k < n" using k by (simp add: n_def)
  have buckets': "bucketColors st' = (bucketColors st)[b := y + 1]"
    and attrs': "particleAttributes st' = (particleAttributes st)
           [4 * k := fround v, 4 * k + 1 := fround (real y), 4 * k + 2 := fround f,
            4 * k + 3 := fround (real (n - 1 - k))]"
    and min': "particles.minFrameSpan st' = (if less_number (Num f) (particles.minFrameSpan st)
                                     then Num f else particles.minFrameSpan st)"
    and max': "particles.maxFrameSpan st' = (if less_number (particles.maxFrameSpan st) (Num f)
                                     then Num f else particles.maxFrameSpan st)"
    and tall': "maxYValue st' = (if y + 1 > maxYValue st then y + 1 else maxYValue st)"
    and idx': "idx st' = 4 * Suc k"
    unfolding st'_def b_def y_def v_def f_def by (simp_all add: step(4))
  have old: "particleAttributes st' ! (4 * j + c) = particleAttributes st ! (4 * j + c)"
    if "j < k" "c < 4" for j c
    using that by (simp add: attrs')
  have new0: "particleAttributes st' ! (4 * k) = fround v"
    and new1: "particleAttributes st' ! (4 * k + 1) = fround (real y)"
    and new2: "particleAttributes st' ! (4 * k + 2) = fround f"
    using kn plen by (simp_all add: attrs')
  have grow: "bucketColors st ! i \<le> bucketColors st' ! i" if "i < n" for i
    using that len by (cases "i = b") (simp_all add: buckets' y_def)
  have here: "bucketColors st' ! b = y + 1"
    using bn len by (simp add: buckets')
  have sum': "sum_list (bucketColors st') = Suc k"
    using bn len total by (simp add: buckets' sum_list_update y_def)
  have stacked': "stacked h im (Suc k) st'"
    unfolding stacked_def
  proof (intro allI impI)
    fix j assume "j < Suc k"
    show "\<exists>s. particleAttributes st' ! (4 * j) = fround (particleValue h im j) \<and>
        particleAttributes st' ! (4 * j + 1) = fround (real s) \<and>
        0 \<le> particleBucket h im j \<and> particleBucket h im j < int (bucketsCount im) \<and>
        s < bucketColors st' ! nat (particleBucket h im j)"
    proof (cases "j = k")
      case True
      with new0 new1 lo hi here show ?thesis by (auto simp: b_def v_def count)
    next
      case False
      with \<open>j < Suc k\<close> have j: "j < k" by simp
      with stk obtain s where w: "particleAttributes st ! (4 * j) = fround (particleValue h im j)"
        "particleAttributes st ! (4 * j + 1) = fround (real s)"
        "0 \<le> particleBucket h im j" "particleBucket h im j < int n"
        "s < bucketColors st ! nat (particleBucket h im j)"
        unfolding stacked_def count by blast
      from w(3,4) have "nat (particleBucket h im j) < n" by simp
      from grow [OF this] w(5) have "s < bucketColors st' ! nat (particleBucket h im j)" by simp
      with w old [OF j, of 0] old [OF j, of 1] show ?thesis by (auto simp: count)
    qed
  qed
  have spanned': "spanned (Suc k) st'"
  proof (cases "k = 0")
    case True
    with spn have "particles.minFrameSpan st = POSITIVE_INFINITY"
      "particles.maxFrameSpan st = NEGATIVE_INFINITY"
      by (simp_all add: spanned_def)
    with min' max' new2 True show ?thesis by (auto simp: spanned_def)
  next
    case False
    with spn obtain lo hi where s: "particles.minFrameSpan st = Num lo"
      "particles.maxFrameSpan st = Num hi"
      "\<forall>j<k. \<exists>x. particleAttributes st ! (4 * j + 2) = fround x \<and> lo \<le> x \<and> x \<le> hi"
      by (auto simp: spanned_def)
    have mn: "particles.minFrameSpan st' = Num (min f lo)"
      and mx: "particles.maxFrameSpan st' = Num (max f hi)"
      using s(1,2) by (auto simp: min' max')
    have "\<exists>x. particleAttributes st' ! (4 * j + 2) = fround x \<and> min f lo \<le> x \<and> x \<le> max f hi"
      if "j < Suc k" for j
    proof (cases "j = k")
      case True
      with new2 show ?thesis by auto
    next
      case False
      with that have j: "j < k" by simp
      with s(3) obtain x where "particleAttributes st ! (4 * j + 2) = fround x" "lo \<le> x" "x \<le> hi"
        by blast
      with old [OF j, of 2] show ?thesis by auto
    qed
    with mn mx show ?thesis by (auto simp: spanned_def)
  qed
  have tallest': "tallest st'"
  proof -
    from tal have below: "\<forall>c\<in>set (bucketColors st). c \<le> maxYValue st"
      and reached: "maxYValue st = 0 \<or> maxYValue st \<in> set (bucketColors st)"
      by (simp_all add: tallest_def)
    from bn len have "b < length (bucketColors st)" by simp
    from tallest_update [OF below reached this] show ?thesis
      unfolding tallest_def buckets' tall' y_def .
  qed
  show ?thesis
    unfolding laid_out_def st'_def [symmetric] n_def [symmetric]
    using kn idx' len plen sum' stacked' spanned' tallest'
    by (simp add: buckets' attrs')
qed

lemma laid_out_initialLoader: "laid_out h im 0 (initialLoader im settings seed)"
  by (simp add: laid_out_def initialLoader_def bucketsCount_def Let_def stacked_def spanned_def
      tallest_def)

lemma laid_out_timerSet: "laid_out h im k (timerSet st) = laid_out h im k st"
  by (simp add: laid_out_def stacked_def spanned_def tallest_def timerSet_def Let_def)

lemma laid_out_gap: "laid_out h im k (gap b st) = laid_out h im k st"
  by (simp add: laid_out_def stacked_def spanned_def tallest_def gap_def)

lemma laid_out_scheduleWork:
  assumes vals: "\<forall>i < width im * height im. 0 \<le> pixelValue h im i \<and> pixelValue h im i \<le> 1"
      and small: "width im * height im < 2 ^ 32"
      and start: "laid_out h im k st"
  shows "\<exists>k'. laid_out h im k' (closure (scheduleWork h im sched i st))"
proof (rule scheduleWork_invariant [where P = "\<lambda>s. \<exists>k. laid_out h im k s"])
  fix s :: loader
  assume "\<exists>k. laid_out h im k s" and guard: "idx s < 4 * (width im * height im)"
  then obtain k where lay: "laid_out h im k s" by blast
  then have "idx s = 4 * k" by (simp add: laid_out_def)
  with guard have k: "k < width im * height im" by simp
  then have "width im * height im - 1 - k < width im * height im" by simp
  with vals have "0 \<le> particleValue h im k" "particleValue h im k \<le> 1"
    unfolding particleValue_def by blast+
  from laid_out_processPixel [OF lay k small this]
  show "\<exists>k. laid_out h im k (processPixel h im s)" by blast
qed (insert start, auto simp: laid_out_timerSet laid_out_gap)

text \<open>
  C4 (corrected). The buffer is a \<^verbatim>\<open>Float32Array\<close>, the spans are doubles. For
  a picture of fewer than \<open>2^32\<close> pixels (the occupancy cells are 32 bits
  wide), with its \<open>4 * width * height\<close> bytes, whose pixel values lie in
  \<open>[0,1]\<close>, when the promise resolves: the occupancies add up to
  \<open>width * height\<close>; \<open>maxYValue\<close> is the largest occupancy (0 when there is no
  bucket); and every particle holds the float32 of its value, the float32 of
  a whole stack height \<open>s \<ge> 0\<close> below the final occupancy of its bucket, which
  lies inside the array, and the float32 of a jitter \<open>x\<close> between
  \<open>minFrameSpan\<close> and \<open>maxFrameSpan\<close>, both finite. A stack height below \<open>2^24\<close>
  is held as it is (so are all of them in a picture of at most \<open>2^24\<close>
  pixels); of the jitter held nothing more is true: the float32 of \<open>x\<close> can
  lie outside the spans.
\<close>

theorem layout_invariants:
  assumes "\<forall>i < width im * height im. 0 \<le> pixelValue h im i \<and> pixelValue h im i \<le> 1"
      and "width im * height im < 2 ^ 32"
      and "loadParticles h sched seed im (Some settings) = Inr (Resolved st)"
      and "length (data im) = 4 * (width im * height im)"
  shows "sum_list (bucketColors st) = width im * height im \<and>
         (\<forall>j < width im * height im. \<exists>s x lo hi.
             particleAttributes st ! (4 * j) = fround (particleValue h im j) \<and>
             particleAttributes st ! (4 * j + 1) = fround (real s) \<and>
             (s < 2 ^ 24 \<longrightarrow> particleAttributes st ! (4 * j + 1) = Num (real s)) \<and>
             particleAttributes st ! (4 * j + 2) = fround x \<and>
             0 \<le> particleBucket h im j \<and> particleBucket h im j < int (bucketsCount im) \<and>
             s < bucketColors st ! nat (particleBucket h im j) \<and>
             particles.minFrameSpan st = Num lo \<and> particles.maxFrameSpan st = Num hi \<and>
             lo \<le> x \<and> x \<le> hi) \<and>
         maxYValue st = Max (insert 0 (set (bucketColors st)))"
proof -
  define n where "n = width im * height im"
  from assms(3) have run: "scheduleWork h im sched 0 (initialLoader im settings seed) = Resolved st"
    by (simp add: loadParticles_def split: option.splits)
  from laid_out_scheduleWork [OF assms(1,2) laid_out_initialLoader, of sched 0 settings seed] run
  obtain k where lay: "laid_out h im k st" by auto
  from scheduleWork_resolved [OF run] lay have "k = n"
    by (simp add: laid_out_def n_def)
  with lay have total: "sum_list (bucketColors st) = n" and stk: "stacked h im n st"
    and spn: "spanned n st" and tal: "tallest st"
    by (simp_all add: laid_out_def n_def)
  have each: "\<exists>s x lo hi.
             particleAttributes st ! (4 * j) = fround (particleValue h im j) \<and>
             particleAttributes st ! (4 * j + 1) = fround (real s) \<and>
             (s < 2 ^ 24 \<longrightarrow> particleAttributes st ! (4 * j + 1) = Num (real s)) \<and>
             particleAttributes st ! (4 * j + 2) = fround x \<and>
             0 \<le> particleBucket h im j \<and> particleBucket h im j < int (bucketsCount im) \<and>
             s < bucketColors st ! nat (particleBucket h im j) \<and>
             particles.minFrameSpan st = Num lo \<and> particles.maxFrameSpan st = Num hi \<and>
             lo \<le> x \<and> x \<le> hi" if j: "j < n" for j
  proof -
    from stk j obtain s where a: "particleAttributes st ! (4 * j) = fround (particleValue h im j)"
      "particleAttributes st ! (4 * j + 1) = fround (real s)"
      "0 \<le> particleBucket h im j" "particleBucket h im j < int (bucketsCount im)"
      "s < bucketColors st ! nat (particleBucket h im j)"
      unfolding stacked_def by blast
    from a(2) have exact: "s < 2 ^ 24 \<longrightarrow> particleAttributes st ! (4 * j + 1) = Num (real s)"
      by (simp add: fround_nat)
    from j have "n \<noteq> 0" by simp
    with spn j obtain lo hi x where b: "particles.minFrameSpan st = Num lo"
      "particles.maxFrameSpan st = Num hi"
      "particleAttributes st ! (4 * j + 2) = fround x" "lo \<le> x" "x \<le> hi"
      unfolding spanned_def by fastforce
    from a exact b show ?thesis by blast
  qed
  have "maxYValue st = Max (insert 0 (set (bucketColors st)))"
  proof (rule Max_eqI [symmetric])
    show "finite (insert 0 (set (bucketColors st)))" by simp
    show "y \<le> maxYValue st" if "y \<in> insert 0 (set (bucketColors st))" for y
      using that tal by (auto simp: tallest_def)
    show "maxYValue st \<in> insert 0 (set (bucketColors st))"
      using tal by (auto simp: tallest_def)
  qed
  with total each show ?thesis
    by (simp add: n_def)
qed

theorem layout_invariants_witness:
  "width example_image * height example_image = 2 \<and>
   pixelValue example_host example_image 0 = 1 \<and> pixelValue example_host example_image 1 = 0 \<and>
   (2 :: nat) < 2 ^ 32 \<and>
   loadParticles example_host (uninterrupted 5) 0 example_image (Some example_settings) =
     Inr (Resolved example_closure) \<and>
   length (data example_image) = 8 \<and>
   bucketColors example_closure = [1, 1] \<and>
   sum_list (bucketColors example_closure) = 2 \<and>
   maxYValue example_closure = 1 \<and>
   Max (insert 0 (set (bucketColors example_closure))) = 1 \<and>
   particleAttributes example_closure ! 0 = fround (particleValue example_host example_image 0) \<and>
   particleAttributes example_closure ! 1 = Num 0 \<and>
   particleAttributes example_closure ! 4 = fround (particleValue example_host example_image 1) \<and>
   particleAttributes example_closure ! 5 = Num 0"
proof -
  have size: "width example_image * height example_image = 2"
    by (simp add: example_image_def)
  have px: "pixelValue example_host example_image 0 = 1" "pixelValue example_host example_image 1 = 0"
    by (simp_all add: pixelValue_def getValue_def example_host_def example_image_def)
  have vals: "\<forall>i < width example_image * height example_image.
      0 \<le> pixelValue example_host example_image i \<and> pixelValue example_host example_image i \<le> 1"
    using px by (auto simp: size less_Suc_eq numeral_2_eq_2)
  have small: "width example_image * height example_image < 2 ^ 32"
    by (simp add: size)
  have bytes: "length (data example_image) = 4 * (width example_image * height example_image)"
    by (simp add: example_image_def)
  have bytes': "length (data example_image) = 8"
    by (simp add: example_image_def)
  note all = layout_invariants [OF vals small example_resolves bytes]
  from all have sums: "sum_list (bucketColors example_closure) = 2"
    "Max (insert 0 (set (bucketColors example_closure))) = 1"
    by (simp_all add: size) (simp_all add: example_closure_def)
  from all have "\<forall>j<2. particleAttributes example_closure ! (4 * j) =
      fround (particleValue example_host example_image j)"
    unfolding size by blast
  then have cells: "particleAttributes example_closure ! 0 =
      fround (particleValue example_host example_image 0)"
    "particleAttributes example_closure ! 4 = fround (particleValue example_host example_image 1)"
    by (auto dest: spec [of _ 0] spec [of _ 1])
  from size px example_resolves bytes' sums cells show ?thesis
    by (simp add: example_closure_def)
qed

text \<open>
  The claim fails on the picture of one white pixel with a generator that
  hands out the double \<open>4.689156939491689\<close>: both spans are that double, and
  the jitter in the buffer is its float32, \<open>9833875 / 2^21\<close> (about
  \<open>4.689157009\<close>), above \<open>maxFrameSpan\<close>. And a stack height of \<open>16777219\<close>,
  reached in a bucket that holds \<open>16777220\<close> particles, is held as
  \<open>16777220\<close>, not below that occupancy.
\<close>

theorem layout_invariants_counterexample:
  "map_sum id resolvedWith
     (loadParticles rounding_host (uninterrupted 5) 0 single_pixel (Some example_settings)) =
     Inr (Some \<lparr>particles.minFrameSpan = Num (5279521361344137 / 2 ^ 50),
                 particles.maxFrameSpan = Num (5279521361344137 / 2 ^ 50),
                 particleAttributes = [Num 1, Num 0, Num (9833875 / 2 ^ 21), Num 0],
                 maxYValue = 1\<rparr>) \<and>
   (5279521361344137 / 2 ^ 50 :: real) < 9833875 / 2 ^ 21 \<and>
   fround 16777219 = Num 16777220"
proof -
  have start: "initialLoader single_pixel settings 0 =
     \<lparr>particles.minFrameSpan = POSITIVE_INFINITY, maxFrameSpan = NEGATIVE_INFINITY,
      particleAttributes = [Num 0, Num 0, Num 0, Num 0],
      maxYValue = 0, idx = 0, initIntervals = 0, bucketColors = [0],
      options = settings, onProgress = [], drawn = 0\<rparr>" for settings
    by (simp add: initialLoader_def bucketsCount_def single_pixel_def Let_def numeral_eq_Suc)
  have pixel: "processPixel rounding_host single_pixel
     \<lparr>particles.minFrameSpan = POSITIVE_INFINITY, maxFrameSpan = NEGATIVE_INFINITY,
      particleAttributes = [Num 0, Num 0, Num 0, Num 0],
      maxYValue = 0, idx = 0, initIntervals = batches, bucketColors = [0],
      options = settings, onProgress = reports, drawn = 0\<rparr> =
     \<lparr>particles.minFrameSpan = Num (5279521361344137 / 2 ^ 50),
      maxFrameSpan = Num (5279521361344137 / 2 ^ 50),
      particleAttributes = [Num 1, Num 0, Num (9833875 / 2 ^ 21), Num 0],
      maxYValue = 1, idx = 4, initIntervals = batches, bucketColors = [1],
      options = settings, onProgress = reports, drawn = 1\<rparr>" for batches settings reports
    using fround_rounding_host
    by (simp add: processPixel_def Let_def getValue_def bucketNumber_def Math_round_def
        incrementBucket_def rounding_host_def example_host_def single_pixel_def fround_samples)
  have size: "width single_pixel = 1" "height single_pixel = 1"
    by (simp_all add: single_pixel_def)
  have canvas: "canvasError rounding_host single_pixel = None"
    by (simp add: rounding_host_def example_host_def single_pixel_def)
  have "map_sum id resolvedWith
     (loadParticles rounding_host (uninterrupted 5) 0 single_pixel (Some example_settings)) =
     Inr (Some \<lparr>particles.minFrameSpan = Num (5279521361344137 / 2 ^ 50),
                 particles.maxFrameSpan = Num (5279521361344137 / 2 ^ 50),
                 particleAttributes = [Num 1, Num 0, Num (9833875 / 2 ^ 21), Num 0],
                 maxYValue = 1\<rparr>)"
    by (simp add: loadParticles_def canvas start scheduleWork_unfold processPixels_numeral
        processPixels_0 timerSet_def gap_def Let_def uninterrupted_def size pixel
        example_settings_def particles.truncate_def split del: if_split)
  moreover have "(5279521361344137 / 2 ^ 50 :: real) < 9833875 / 2 ^ 21" by simp
  ultimately show ?thesis using fround_16777219 by simp
qed

section \<open>The animation state machine\<close>

lemma example_chart_built:
  "map_sum id (initWebGLPrimitives example_particles False) (pixChart ''picture'' (Some example_options))
     = Inr example_chart"
  by (simp add: pixChart_def example_options_def Let_def initialState_def framesCountOr120_def
      startAnimationPipeline_def initWebGLPrimitives_def releasePreviousWebGLResources_def
      setInitialFrameNumber_def example_particles_def example_chart_def minus_number_def)

text \<open>The sample chart, tick by tick: four steps of Collapse.\<close>

lemma example_collapse_ticks:
  "animate (animate (animate (animate example_chart))) =
     example_chart\<lparr>currentFrameNumber := Num (- (1 / 2)), nextAnimationFrame := True\<rparr>"
  by (simp add: animate_def scheduleNextFrame_def example_chart_def)

text \<open>
  C7 (confirmed). For every closure, whatever its numbers are: a tick that
  finds the frame number below \<open>maxFrameSpan\<close> requests another frame and
  leaves the phase as it is; in Collapse it adds \<open>frameChangeRate\<close> once, in
  Expand it adds it, and adds it a second time while the frame number
  remains below \<open>maxFrameSpan\<close> after the first addition. A tick that finds
  the frame number not below \<open>maxFrameSpan\<close>, as every comparison with an
  undefined span does, flips the phase and runs \<open>completeState\<close>.
\<close>

theorem tick_advances_once_or_twice:
  "scheduleNextFrame c =
    (if less_number (currentFrameNumber c) (chart.maxFrameSpan c)
     then (if state c = ANIMATION_COLLAPSE
           then c\<lparr>currentFrameNumber := plus_number (currentFrameNumber c) (frameChangeRate c),
                   nextAnimationFrame := True\<rparr>
           else c\<lparr>currentFrameNumber :=
                     (if less_number (plus_number (currentFrameNumber c) (frameChangeRate c))
                           (chart.maxFrameSpan c)
                      then plus_number (plus_number (currentFrameNumber c) (frameChangeRate c))
                             (frameChangeRate c)
                      else plus_number (currentFrameNumber c) (frameChangeRate c)),
                   nextAnimationFrame := True\<rparr>)
     else completeState
            (c\<lparr>state := (if state c = ANIMATION_COLLAPSE then ANIMATION_EXPAND
                            else ANIMATION_COLLAPSE)\<rparr>))"
  by (simp add: scheduleNextFrame_def Let_def)

text \<open>
  On the sample chart: a tick of Expand with two additions, and one with a
  single addition; a tick of Collapse; the tick that completes Collapse and
  the one that completes Expand; a tick with a rate that is NaN; and a tick
  of the chart as \<open>pixChart\<close> returns it, before a load has set the spans.
\<close>

theorem tick_advances_once_or_twice_witness:
  "scheduleNextFrame (example_chart\<lparr>state := ANIMATION_EXPAND\<rparr>) =
     example_chart\<lparr>state := ANIMATION_EXPAND, currentFrameNumber := Num (- (3 / 4)),
                     nextAnimationFrame := True\<rparr> \<and>
   scheduleNextFrame (example_chart\<lparr>state := ANIMATION_EXPAND, currentFrameNumber := Num (- (5 / 8))\<rparr>) =
     example_chart\<lparr>state := ANIMATION_EXPAND, currentFrameNumber := Num (- (1 / 2)),
                     nextAnimationFrame := True\<rparr> \<and>
   scheduleNextFrame example_chart =
     example_chart\<lparr>currentFrameNumber := Num (- (7 / 8)), nextAnimationFrame := True\<rparr> \<and>
   scheduleNextFrame (example_chart\<lparr>currentFrameNumber := Num (- (1 / 2))\<rparr>) =
     example_chart\<lparr>state := ANIMATION_EXPAND, currentFrameNumber := Num (- 1),
                     chart.pendingTimeout := Some 1000\<rparr> \<and>
   scheduleNextFrame (example_chart\<lparr>state := ANIMATION_EXPAND, currentFrameNumber := Num (- (1 / 2))\<rparr>) =
     example_chart\<lparr>state := ANIMATION_COLLAPSE, currentFrameNumber := Num (- 1),
                     cycleCompleteCalls := 1\<rparr> \<and>
   scheduleNextFrame (example_chart\<lparr>frameChangeRate := NaN\<rparr>) =
     example_chart\<lparr>frameChangeRate := NaN, currentFrameNumber := NaN,
                     nextAnimationFrame := True\<rparr> \<and>
   map_sum id scheduleNextFrame (pixChart ''picture'' (Some example_options)) =
     Inr (example_chart\<lparr>state := ANIMATION_EXPAND, currentFrameNumber := NaN,
            chart.minFrameSpan := NaN, chart.maxFrameSpan := NaN, frameChangeRate := NaN,
            imgInfo := None, particleAttributesBuffer := False,
            chart.pendingTimeout := Some 1000\<rparr>)"
proof -
  have built: "pixChart ''picture'' (Some example_options) =
     Inr (example_chart\<lparr>currentFrameNumber := Num 0, chart.minFrameSpan := NaN,
            chart.maxFrameSpan := NaN, frameChangeRate := NaN, imgInfo := None,
            particleAttributesBuffer := False\<rparr>)"
    by (simp add: pixChart_def example_options_def Let_def initialState_def framesCountOr120_def
        startAnimationPipeline_def example_chart_def)
  have "scheduleNextFrame (example_chart\<lparr>state := ANIMATION_EXPAND\<rparr>) =
     example_chart\<lparr>state := ANIMATION_EXPAND, currentFrameNumber := Num (- (3 / 4)),
                     nextAnimationFrame := True\<rparr>"
    by (subst tick_advances_once_or_twice) (simp add: example_chart_def)
  moreover have "scheduleNextFrame
       (example_chart\<lparr>state := ANIMATION_EXPAND, currentFrameNumber := Num (- (5 / 8))\<rparr>) =
     example_chart\<lparr>state := ANIMATION_EXPAND, currentFrameNumber := Num (- (1 / 2)),
                     nextAnimationFrame := True\<rparr>"
    by (subst tick_advances_once_or_twice) (simp add: example_chart_def)
  moreover have "scheduleNextFrame example_chart =
     example_chart\<lparr>currentFrameNumber := Num (- (7 / 8)), nextAnimationFrame := True\<rparr>"
    by (subst tick_advances_once_or_twice) (simp add: example_chart_def)
  moreover have "scheduleNextFrame (example_chart\<lparr>currentFrameNumber := Num (- (1 / 2))\<rparr>) =
     example_chart\<lparr>state := ANIMATION_EXPAND, currentFrameNumber := Num (- 1),
                     chart.pendingTimeout := Some 1000\<rparr>"
    by (subst tick_advances_once_or_twice)
      (simp add: example_chart_def completeState_def setInitialFrameNumber_def initialState_def)
  moreover have "scheduleNextFrame
       (example_chart\<lparr>state := ANIMATION_EXPAND, currentFrameNumber := Num (- (1 / 2))\<rparr>) =
     example_chart\<lparr>state := ANIMATION_COLLAPSE, currentFrameNumber := Num (- 1),
                     cycleCompleteCalls := 1\<rparr>"
    by (subst tick_advances_once_or_twice)
      (simp add: example_chart_def example_options_def completeState_def
        setInitialFrameNumber_def initialState_def)
  moreover have "scheduleNextFrame (example_chart\<lparr>frameChangeRate := NaN\<rparr>) =
     example_chart\<lparr>frameChangeRate := NaN, currentFrameNumber := NaN,
                     nextAnimationFrame := True\<rparr>"
    by (subst tick_advances_once_or_twice) (simp add: example_chart_def)
  moreover have "map_sum id scheduleNextFrame (pixChart ''picture'' (Some example_options)) =
     Inr (example_chart\<lparr>state := ANIMATION_EXPAND, currentFrameNumber := NaN,
            chart.minFrameSpan := NaN, chart.maxFrameSpan := NaN, frameChangeRate := NaN,
            imgInfo := None, particleAttributesBuffer := False,
            chart.pendingTimeout := Some 1000\<rparr>)"
    unfolding built
    by (simp, subst tick_advances_once_or_twice)
      (simp add: example_chart_def completeState_def setInitialFrameNumber_def initialState_def)
  ultimately show ?thesis by (simp only: simp_thms)
qed

text \<open>
  C1 (corrected). \<open>completeState\<close> compares the phase that is about to start,
  not the one that ended, with \<open>initialState\<close>. So a tick that completes
  Collapse resets the frame number to \<open>minFrameSpan\<close>, sets the one-second
  timer and does not call \<open>cycleComplete\<close>; a tick that completes Expand resets
  the frame number, calls \<open>cycleComplete\<close> (when the option is given) and sets
  no timer: the next tick waits for the owner's \<open>restartCycle\<close>.
\<close>

theorem phase_completion:
  assumes "\<not> less_number (currentFrameNumber c) (chart.maxFrameSpan c)"
  shows "scheduleNextFrame c =
    (if state c = ANIMATION_COLLAPSE
     then c\<lparr>state := ANIMATION_EXPAND, currentFrameNumber := chart.minFrameSpan c,
             chart.pendingTimeout := Some 1000\<rparr>
     else c\<lparr>state := ANIMATION_COLLAPSE, currentFrameNumber := chart.minFrameSpan c,
             cycleCompleteCalls :=
               cycleCompleteCalls c + (if options.cycleComplete (chart.options c) then 1 else 0)\<rparr>)"
  using assms
  by (cases "state c")
    (simp_all add: scheduleNextFrame_def completeState_def setInitialFrameNumber_def
      initialState_def Let_def)

theorem phase_completion_witness:
  "\<not> less_number (currentFrameNumber (example_chart\<lparr>currentFrameNumber := Num (- (1 / 2))\<rparr>))
       (chart.maxFrameSpan (example_chart\<lparr>currentFrameNumber := Num (- (1 / 2))\<rparr>)) \<and>
   scheduleNextFrame (example_chart\<lparr>currentFrameNumber := Num (- (1 / 2))\<rparr>) =
     example_chart\<lparr>state := ANIMATION_EXPAND, chart.pendingTimeout := Some 1000\<rparr>"
proof -
  have h: "\<not> less_number (currentFrameNumber (example_chart\<lparr>currentFrameNumber := Num (- (1 / 2))\<rparr>))
       (chart.maxFrameSpan (example_chart\<lparr>currentFrameNumber := Num (- (1 / 2))\<rparr>))"
    by (simp add: example_chart_def)
  show ?thesis
    using phase_completion [OF h] h by (simp add: example_chart_def)
qed

text \<open>
  The claim fails on the sample chart: the fifth tick completes Collapse with
  the callback given, and \<open>cycleComplete\<close> is not called; after the pause, the
  third tick of Expand completes it, \<open>cycleComplete\<close> is called at this
  Expand-to-Collapse transition, and neither a timer nor a frame is pending.
\<close>

theorem phase_completion_counterexample:
  "options.cycleComplete (chart.options example_chart) \<and>
   state (animate (animate (animate (animate (animate example_chart))))) = ANIMATION_EXPAND \<and>
   cycleCompleteCalls (animate (animate (animate (animate (animate example_chart))))) = 0 \<and>
   state (animate (animate (animate (timeoutFired
       (animate (animate (animate (animate (animate example_chart))))))))) = ANIMATION_COLLAPSE \<and>
   cycleCompleteCalls (animate (animate (animate (timeoutFired
       (animate (animate (animate (animate (animate example_chart))))))))) = 1 \<and>
   chart.pendingTimeout (animate (animate (animate (timeoutFired
       (animate (animate (animate (animate (animate example_chart))))))))) = None \<and>
   \<not> nextAnimationFrame (animate (animate (animate (timeoutFired
       (animate (animate (animate (animate (animate example_chart)))))))))"
  by (simp add: animate_def scheduleNextFrame_def completeState_def setInitialFrameNumber_def
      initialState_def timeoutFired_def example_chart_def example_options_def)

text \<open>
  C5 (corrected). \<open>pixChart\<close> never reads \<open>options.collapsed\<close>: the machine
  starts in Collapse whatever the option says. The frame number is 0 when
  \<open>pixChart\<close> returns and becomes \<open>minFrameSpan\<close> of the particles when their
  first load is installed (\<open>initWebGLPrimitives\<close> without \<open>keepCurrentFrame\<close>).
\<close>

theorem initial_phase:
  assumes "pixChart link (Some opts) = Inr c"
  shows "state c = ANIMATION_COLLAPSE \<and> currentFrameNumber c = Num 0 \<and>
         state (initWebGLPrimitives p False c) = ANIMATION_COLLAPSE \<and>
         currentFrameNumber (initWebGLPrimitives p False c) = particles.minFrameSpan p \<and>
         pixChart link (Some (opts\<lparr>collapsed := b\<rparr>)) = Inr (c\<lparr>chart.options := opts\<lparr>collapsed := b\<rparr>\<rparr>)"
  using assms
  by (auto simp: pixChart_def Let_def initialState_def startAnimationPipeline_def
      initWebGLPrimitives_def setInitialFrameNumber_def releasePreviousWebGLResources_def
      split: if_splits)

theorem initial_phase_witness:
  "pixChart ''picture'' (Some example_options) =
     Inr (example_chart\<lparr>currentFrameNumber := Num 0, chart.minFrameSpan := NaN,
            chart.maxFrameSpan := NaN, frameChangeRate := NaN, imgInfo := None,
            particleAttributesBuffer := False\<rparr>) \<and>
   state (initWebGLPrimitives example_particles False
            (example_chart\<lparr>currentFrameNumber := Num 0, chart.minFrameSpan := NaN,
               chart.maxFrameSpan := NaN, frameChangeRate := NaN, imgInfo := None,
               particleAttributesBuffer := False\<rparr>)) = ANIMATION_COLLAPSE \<and>
   currentFrameNumber (initWebGLPrimitives example_particles False
            (example_chart\<lparr>currentFrameNumber := Num 0, chart.minFrameSpan := NaN,
               chart.maxFrameSpan := NaN, frameChangeRate := NaN, imgInfo := None,
               particleAttributesBuffer := False\<rparr>)) = Num (- 1)"
proof -
  have h: "pixChart ''picture'' (Some example_options) =
     Inr (example_chart\<lparr>currentFrameNumber := Num 0, chart.minFrameSpan := NaN,
            chart.maxFrameSpan := NaN, frameChangeRate := NaN, imgInfo := None,
            particleAttributesBuffer := False\<rparr>)"
    by (simp add: pixChart_def example_options_def Let_def initialState_def framesCountOr120_def
        startAnimationPipeline_def example_chart_def)
  show ?thesis
    using initial_phase [OF h, of example_particles] h by (simp add: example_particles_def)
qed

text \<open>
  The claim fails on the sample options: asked to start expanded
  (\<open>collapsed = false\<close>) or collapsed, the chart starts in Collapse.
\<close>

theorem initial_phase_counterexample:
  "map_sum id state (pixChart ''picture'' (Some (example_options\<lparr>collapsed := Some False\<rparr>)))
     = Inr ANIMATION_COLLAPSE \<and>
   map_sum id state (pixChart ''picture'' (Some (example_options\<lparr>collapsed := Some True\<rparr>)))
     = Inr ANIMATION_COLLAPSE"
  by (simp add: pixChart_def example_options_def Let_def initialState_def
      startAnimationPipeline_def)

subsection \<open>The range of the frame number\<close>






section \<open>The session's setters\<close>

text \<open>
  C10 (confirmed). An input that \<open>parseFloat\<close> or \<open>parseInt\<close> reads as NaN, and
  for \<open>setBucketCount\<close> one read as a number below 1, leaves the session as it
  is: state field, query string, chart and timer.
\<close>

theorem invalid_input_is_ignored:
  "(parseFloat g x = NaN \<longrightarrow> setAnimationDuration g x sc = sc) \<and>
   (parseInt g x = NaN \<or> less_number (parseInt g x) (Num 1) \<longrightarrow> setBucketCount g x sc = Inr sc) \<and>
   (parseInt g x = NaN \<longrightarrow> setMaxPixels_scene g x sc = sc)"
  by (simp add: setAnimationDuration_def setBucketCount_def setMaxPixels_scene_def Let_def)

theorem invalid_input_is_ignored_witness:
  "parseFloat example_globals ''fast'' = NaN \<and>
   setAnimationDuration example_globals ''fast'' example_scene = example_scene \<and>
   parseInt example_globals ''fast'' = NaN \<and>
   setBucketCount example_globals ''fast'' example_scene = Inr example_scene \<and>
   setMaxPixels_scene example_globals ''fast'' example_scene = example_scene \<and>
   less_number (parseInt example_globals ''0'') (Num 1) \<and>
   setBucketCount example_globals ''0'' example_scene = Inr example_scene"
proof -
  have h: "parseFloat example_globals ''fast'' = NaN" "parseInt example_globals ''fast'' = NaN"
    "less_number (parseInt example_globals ''0'') (Num 1)"
    by (simp_all add: example_globals_def)
  show ?thesis
    using invalid_input_is_ignored [of example_globals "''fast''" example_scene]
      invalid_input_is_ignored [of example_globals "''0''" example_scene] h
    by simp
qed

text \<open>
  With the two sources at hand \<open>createPixChart\<close> assigns the chart, which
  starts in Collapse, and then throws.
\<close>

lemma createPixChart_throws:
  "map_sum (map_prod id (map_option state \<circ> currentPixChart)) id
     (createPixChart (Some ''picture'') (example_scene\<lparr>currentPixChart := None\<rparr>)) =
     Inl (TypeError, Some ANIMATION_COLLAPSE)"
  by (simp add: createPixChart_def pixChart_def example_scene_def Let_def initialState_def
      startAnimationPipeline_def)

text \<open>The setters are not idle: an input that parses is stored.\<close>

lemma valid_input_is_stored:
  "duration (setAnimationDuration example_globals ''2.5'' example_scene) = Num (5 / 2) \<and>
   qs (setAnimationDuration example_globals ''2.5'' example_scene) ''d'' = Some (QNum (Num (5 / 2))) \<and>
   map_option chart.framesCount (currentPixChart (setAnimationDuration example_globals ''2.5'' example_scene))
     = Some (Num 150) \<and>
   scene.maxPixels (setMaxPixels_scene example_globals ''7'' example_scene) = Num 7 \<and>
   map_sum id scene.bucketCount (setBucketCount example_globals ''7'' example_scene) = Inr (Num 7) \<and>
   map_sum id scene.pendingTimeout (setBucketCount example_globals ''7'' example_scene)
     = Inr (Some (CreatePixChart (Some ''picture''), 250))"
  by (simp add: setAnimationDuration_def setMaxPixels_scene_def setBucketCount_def
      restartCurrentAnimation_def processNextInQueue_def setImage_def setFramesCount_def
      example_globals_def example_scene_def example_chart_def Let_def)

end
